theory Spec2Isabelle
  imports Main "HOL-Library.Word"
begin

section \<open>Machine types\<close>

text \<open>
  The reader is modelled on an LP64 platform: \<open>int\<close> is a 32-bit word, \<open>long\<close>,
  \<open>unsigned long\<close>, \<open>size_t\<close>, \<open>off_t\<close> and \<open>vtkIdType\<close> are 64-bit words. Word
  arithmetic wraps; \<open>sint\<close> reads a word as a signed value, \<open>unat\<close> as an unsigned one.
  Signed \<open>int\<close> arithmetic is modelled as two's complement wrap-around (in C++ its
  overflow is undefined).
\<close>

type_synonym c_int = "32 word"
type_synonym c_long = "64 word"
type_synonym c_ulong = "64 word"
type_synonym vtkIdType = "64 word"
type_synonym byte = "8 word"

text \<open>Integral conversions: widening a signed value sign-extends, narrowing truncates.\<close>

definition int_to_ulong :: "c_int \<Rightarrow> c_ulong" where
  "int_to_ulong x = scast x"

definition long_to_int :: "c_long \<Rightarrow> c_int" where
  "long_to_int x = ucast x"

section \<open>Objects\<close>

text \<open>
  A \<open>vtkStringArray*\<close> is an object identity together with the values the object holds;
  pointer comparison compares the identity only.
\<close>

record vtkStringArray =
  ObjectId :: nat
  StringValues :: "string list"

text \<open>
  An input file stream: the bytes of the file it was opened on, the get position and
  the fail bit.
\<close>

record ifstream =
  contents :: "byte list"
  gpos :: nat
  failbit :: bool

text \<open>The messages of \<open>vtkErrorMacro\<close>, \<open>vtkWarningMacro\<close> and \<open>vtkGenericWarningMacro\<close>.\<close>

datatype message =
    ErrNoFileNameFileNamesOrFilePattern
  | ErrNoFileNameOrFilePattern
  | ErrNoValidFileNameOrFilePattern
  | ErrUnknownDataScalarType
  | ErrCouldNotOpenFile "string option"
  | ErrUpdateFromFileUnknownDataType
  | WarnFileMustBeSpecified
  | WarnSeekFailed
  | WarnReadFailed c_int c_long

text \<open>
  The fields of \<open>vtkImageReader2\<close> that the member functions read or write. A null
  \<open>char*\<close> or object pointer is \<open>None\<close>. \<open>MTime\<close> counts the calls of \<open>Modified()\<close>,
  \<open>Messages\<close> collects what the error and warning macros report, \<open>ProgressEvents\<close>
  collects the arguments \<open>(count, target)\<close> of \<open>UpdateProgress(count / (50.0 * target))\<close>.
\<close>

record vtkImageReader2 =
  FileName :: "string option"
  FileNames :: "vtkStringArray option"
  FilePrefix :: "string option"
  FilePattern :: "string option"
  InternalFileName :: "string option"
  File :: "ifstream option"
  DataScalarType :: c_int
  NumberOfScalarComponents :: c_int
  DataExtent :: "c_int list"
  DataIncrements :: "c_ulong list"
  MemoryBuffer :: "nat option"
  MemoryBufferLength :: vtkIdType
  HeaderSize :: c_ulong
  ManualHeaderSize :: c_int
  FileNameSliceOffset :: c_int
  FileNameSliceSpacing :: c_int
  SwapBytes :: c_int
  FileLowerLeft :: c_int
  FileDimensionality :: c_int
  AbortExecute :: c_int
  MTime :: nat
  Messages :: "message list"
  ProgressEvents :: "(c_ulong \<times> c_ulong) list"

text \<open>\<open>int DataExtent[6]\<close> and \<open>unsigned long DataIncrements[4]\<close> are fixed-size arrays.\<close>

definition wf_arrays :: "vtkImageReader2 \<Rightarrow> bool" where
  "wf_arrays s \<longleftrightarrow> length (DataExtent s) = 6 \<and> length (DataIncrements s) = 4"

text \<open>
  What the reader takes from outside \<open>vtkImageReader2.cxx\<close>:
  \<^item> \<open>scalar_size\<close>: the dispatch of \<open>vtkTemplateMacro\<close> on a scalar type tag, giving
    \<open>sizeof(VTK_TT)\<close> for a tag the macro has a case for and \<open>None\<close> for the
    \<open>default:\<close> branch;
  \<^item> \<open>files\<close>: the file system, a path's bytes, \<open>None\<close> where \<open>Stat\<close> fails;
  \<^item> \<open>format_sd\<close>, \<open>format_d\<close>: what \<open>snprintf\<close> produces for a pattern applied to
    \<open>(const char*, int)\<close> and to \<open>(int)\<close>, before truncation to the buffer size.
\<close>

record platform =
  scalar_size :: "c_int \<Rightarrow> c_ulong option"
  files :: "string \<Rightarrow> byte list option"
  format_sd :: "string \<Rightarrow> string \<Rightarrow> c_int \<Rightarrow> string"
  format_d :: "string \<Rightarrow> c_int \<Rightarrow> string"

definition vtkErrorMacro :: "message \<Rightarrow> vtkImageReader2 \<Rightarrow> vtkImageReader2" where
  "vtkErrorMacro m s = s\<lparr>Messages := Messages s @ [m]\<rparr>"

definition vtkWarningMacro :: "message \<Rightarrow> vtkImageReader2 \<Rightarrow> vtkImageReader2" where
  "vtkWarningMacro m s = s\<lparr>Messages := Messages s @ [m]\<rparr>"

definition vtkGenericWarningMacro :: "message \<Rightarrow> vtkImageReader2 \<Rightarrow> vtkImageReader2" where
  "vtkGenericWarningMacro m s = s\<lparr>Messages := Messages s @ [m]\<rparr>"

definition Modified :: "vtkImageReader2 \<Rightarrow> vtkImageReader2" where
  "Modified s = s\<lparr>MTime := Suc (MTime s)\<rparr>"

section \<open>ComputeDataIncrements\<close>

text \<open>\<open>DataExtent[idx * 2 + 1] - DataExtent[idx * 2] + 1\<close>, in \<open>int\<close> arithmetic.\<close>

definition axisSize :: "vtkImageReader2 \<Rightarrow> nat \<Rightarrow> c_int" where
  "axisSize s idx = DataExtent s ! (idx * 2 + 1) - DataExtent s ! (idx * 2) + 1"

text \<open>The number of samples along axis \<open>a\<close>, \<open>max - min + 1\<close> as a number.\<close>

definition axis_samples :: "vtkImageReader2 \<Rightarrow> nat \<Rightarrow> nat" where
  "axis_samples s a = nat (sint (DataExtent s ! (a * 2 + 1)) - sint (DataExtent s ! (a * 2)) + 1)"

text \<open>
  One pass of the loop body: store \<open>fileDataLength\<close> at \<open>idx\<close>, then multiply it by
  the size of axis \<open>idx\<close>.
\<close>

definition increments_step ::
  "vtkImageReader2 \<Rightarrow> nat \<Rightarrow> c_ulong list \<times> c_ulong \<Rightarrow> c_ulong list \<times> c_ulong" where
  "increments_step s idx st =
     (case st of (incs, fileDataLength) \<Rightarrow>
        (incs[idx := fileDataLength], fileDataLength * int_to_ulong (axisSize s idx)))"

definition ComputeDataIncrements :: "platform \<Rightarrow> vtkImageReader2 \<Rightarrow> vtkImageReader2" where
  "ComputeDataIncrements env s =
     (case scalar_size env (DataScalarType s) of
        None \<Rightarrow> vtkErrorMacro ErrUnknownDataScalarType s
      | Some sz \<Rightarrow>
          (let fileDataLength = sz * int_to_ulong (NumberOfScalarComponents s);
               (incs, fileDataLength') =
                  fold (increments_step s) [0..<3] (DataIncrements s, fileDataLength)
           in s\<lparr>DataIncrements := incs[3 := fileDataLength']\<rparr>))"

section \<open>The constructor\<close>

text \<open>
  Modelled from the spec: the scalar type tag \<open>VTK_SHORT\<close>, declared in
  \<open>vtkType.h\<close>, which is not among the sources. The default element descriptor is
  a one-component 16-bit signed integer; the tag of that type is 4.
\<close>

definition VTK_SHORT :: c_int where
  "VTK_SHORT = 4"

definition vtkImageReader2_new :: vtkImageReader2 where
  "vtkImageReader2_new =
     \<lparr>FileName = None, FileNames = None, FilePrefix = None, FilePattern = Some ''%s.%d'',
      InternalFileName = None, File = None,
      DataScalarType = VTK_SHORT, NumberOfScalarComponents = 1,
      DataExtent = [0, 0, 0, 0, 0, 0], DataIncrements = [1, 1, 1, 1],
      MemoryBuffer = None, MemoryBufferLength = 0,
      HeaderSize = 0, ManualHeaderSize = 0,
      FileNameSliceOffset = 0, FileNameSliceSpacing = 1,
      SwapBytes = 0, FileLowerLeft = 0, FileDimensionality = 2,
      AbortExecute = 0, MTime = 0, Messages = [], ProgressEvents = []\<rparr>"

section \<open>The setters of the file identity\<close>

definition SetFileName :: "string option \<Rightarrow> vtkImageReader2 \<Rightarrow> vtkImageReader2" where
  "SetFileName name s =
     (if FileName s \<noteq> None \<and> name \<noteq> None \<and> FileName s = name then s
      else if name = None \<and> FileName s = None then s
      else
        (let s1 = s\<lparr>FileName := None\<rparr>;
             s2 = (case name of
                     None \<Rightarrow> s1
                   | Some n \<Rightarrow> s1\<lparr>FileName := Some n, FilePrefix := None, FileNames := None\<rparr>)
         in Modified s2))"

definition GetNumberOfValues :: "vtkStringArray \<Rightarrow> vtkIdType" where
  "GetNumberOfValues a = of_nat (length (StringValues a))"

definition SetFileNames :: "vtkStringArray option \<Rightarrow> vtkImageReader2 \<Rightarrow> vtkImageReader2" where
  "SetFileNames filenames s =
     (if map_option ObjectId filenames = map_option ObjectId (FileNames s) then s
      else
        (let s1 = s\<lparr>FileNames := None\<rparr>;
             s2 = (case filenames of
                     None \<Rightarrow> s1
                   | Some a \<Rightarrow>
                       (let s3 = s1\<lparr>FileNames := Some a\<rparr>;
                            s4 = (if 0 <s GetNumberOfValues a
                                  then s3\<lparr>DataExtent := (DataExtent s3)
                                         [4 := 0, 5 := long_to_int (GetNumberOfValues a - 1)]\<rparr>
                                  else s3)
                        in s4\<lparr>FilePrefix := None, FileName := None\<rparr>))
         in Modified s2))"

definition SetFilePrefix :: "string option \<Rightarrow> vtkImageReader2 \<Rightarrow> vtkImageReader2" where
  "SetFilePrefix prefix s =
     (if FilePrefix s \<noteq> None \<and> prefix \<noteq> None \<and> FilePrefix s = prefix then s
      else if prefix = None \<and> FilePrefix s = None then s
      else
        (let s1 = s\<lparr>FilePrefix := None\<rparr>;
             s2 = (case prefix of
                     None \<Rightarrow> s1
                   | Some p \<Rightarrow> s1\<lparr>FilePrefix := Some p, FileName := None, FileNames := None\<rparr>)
         in Modified s2))"

definition SetFilePattern :: "string option \<Rightarrow> vtkImageReader2 \<Rightarrow> vtkImageReader2" where
  "SetFilePattern pattern s =
     (if FilePattern s \<noteq> None \<and> pattern \<noteq> None \<and> FilePattern s = pattern then s
      else if pattern = None \<and> FilePattern s = None then s
      else
        (let s1 = s\<lparr>FilePattern := None\<rparr>;
             s2 = (case pattern of
                     None \<Rightarrow> s1
                   | Some p \<Rightarrow> s1\<lparr>FilePattern := Some p, FileName := None, FileNames := None\<rparr>)
         in Modified s2))"

text \<open>A call of one of the four setters, and a sequence of such calls.\<close>

datatype setter_call =
    CallSetFileName "string option"
  | CallSetFileNames "vtkStringArray option"
  | CallSetFilePrefix "string option"
  | CallSetFilePattern "string option"

fun apply_setter :: "setter_call \<Rightarrow> vtkImageReader2 \<Rightarrow> vtkImageReader2" where
  "apply_setter (CallSetFileName name) s = SetFileName name s"
| "apply_setter (CallSetFileNames filenames) s = SetFileNames filenames s"
| "apply_setter (CallSetFilePrefix prefix) s = SetFilePrefix prefix s"
| "apply_setter (CallSetFilePattern pattern) s = SetFilePattern pattern s"

definition apply_setters :: "setter_call list \<Rightarrow> vtkImageReader2 \<Rightarrow> vtkImageReader2" where
  "apply_setters calls s = fold apply_setter calls s"

text \<open>How many of the three fields \<open>FileName\<close>, \<open>FileNames\<close>, \<open>FilePrefix\<close> are non-null.\<close>

definition names_set :: "vtkImageReader2 \<Rightarrow> nat" where
  "names_set s =
     (if FileName s = None then 0 else 1) + (if FileNames s = None then 0 else 1)
       + (if FilePrefix s = None then 0 else 1)"

definition at_most_one_name :: "vtkImageReader2 \<Rightarrow> bool" where
  "at_most_one_name s \<longleftrightarrow> names_set s \<le> 1"

text \<open>
  The pattern strategy is in force when \<open>FilePattern\<close> is non-null: that is what
  \<open>ComputeInternalFileName\<close> and \<open>OpenFile\<close> test. This counts the strategies among
  single file, file list and pattern that are set.
\<close>

definition strategies_set :: "vtkImageReader2 \<Rightarrow> nat" where
  "strategies_set s =
     (if FileName s = None then 0 else 1) + (if FileNames s = None then 0 else 1)
       + (if FilePrefix s = None \<and> FilePattern s = None then 0 else 1)"

section \<open>RequestInformation\<close>

text \<open>
  \<open>ExecuteInformation\<close> is empty, so the error code stays \<open>NoError\<close> and the function
  goes on. The result is the reader and the \<open>WHOLE_EXTENT\<close> written to the output
  information.
\<close>

definition RequestInformation :: "vtkImageReader2 \<Rightarrow> vtkImageReader2 \<times> c_int list" where
  "RequestInformation s =
     (let s1 = (case FileNames s of
                  None \<Rightarrow> s
                | Some a \<Rightarrow>
                    (if 0 <s GetNumberOfValues a
                     then s\<lparr>DataExtent := (DataExtent s)
                            [4 := 0, 5 := long_to_int (GetNumberOfValues a - 1)]\<rparr>
                     else s))
      in (s1, DataExtent s1))"

section \<open>Header size and memory buffer setters\<close>

definition SetHeaderSize :: "c_ulong \<Rightarrow> vtkImageReader2 \<Rightarrow> vtkImageReader2" where
  "SetHeaderSize hsize s =
     (let s1 = (if hsize \<noteq> HeaderSize s then Modified (s\<lparr>HeaderSize := hsize\<rparr>) else s)
      in s1\<lparr>ManualHeaderSize := 1\<rparr>)"

definition SetMemoryBuffer :: "nat option \<Rightarrow> vtkImageReader2 \<Rightarrow> vtkImageReader2" where
  "SetMemoryBuffer membuf s =
     (if MemoryBuffer s \<noteq> membuf then Modified (s\<lparr>MemoryBuffer := membuf\<rparr>) else s)"

definition SetMemoryBufferLength :: "vtkIdType \<Rightarrow> vtkImageReader2 \<Rightarrow> vtkImageReader2" where
  "SetMemoryBufferLength buflen s =
     (if MemoryBufferLength s \<noteq> buflen then Modified (s\<lparr>MemoryBufferLength := buflen\<rparr>)
      else s)"

section \<open>ComputeInternalFileName\<close>

text \<open>
  \<open>vtkStringArray::GetValue(id)\<close> reads the underlying array at \<open>id\<close>; an index outside
  the array is undefined behaviour, written \<open>None\<close> here and in every function below.
\<close>

definition GetValue :: "vtkStringArray \<Rightarrow> c_int \<Rightarrow> string option" where
  "GetValue a sliceIdx =
     (if 0 \<le> sint sliceIdx \<and> nat (sint sliceIdx) < length (StringValues a)
      then Some (StringValues a ! nat (sint sliceIdx)) else None)"

text \<open>\<open>snprintf\<close> writes at most \<open>size - 1\<close> characters of the formatted text.\<close>

definition snprintf_truncate :: "nat \<Rightarrow> string \<Rightarrow> string" where
  "snprintf_truncate n formatted = take (n - 1) formatted"

text \<open>The scan for \<open>%s\<close> in the pattern.\<close>

fun hasPercentS :: "string \<Rightarrow> bool" where
  "hasPercentS (c # d # cs) =
     (if c = CHR ''%'' \<and> d = CHR ''s'' then True else hasPercentS (d # cs))"
| "hasPercentS cs = False"

definition ComputeInternalFileName ::
  "platform \<Rightarrow> c_int \<Rightarrow> vtkImageReader2 \<Rightarrow> vtkImageReader2 option" where
  "ComputeInternalFileName env sliceIdx s =
     (let s0 = s\<lparr>InternalFileName := None\<rparr> in
      if FileName s0 = None \<and> FilePattern s0 = None \<and> FileNames s0 = None
      then Some (vtkErrorMacro ErrNoFileNameFileNamesOrFilePattern s0)
      else
        (case FileNames s0 of
           Some a \<Rightarrow>
             (case GetValue a sliceIdx of
                None \<Rightarrow> None
              | Some filename \<Rightarrow>
                  Some (s0\<lparr>InternalFileName :=
                          Some (snprintf_truncate (length filename + 10) filename)\<rparr>))
         | None \<Rightarrow>
             (case FileName s0 of
                Some name \<Rightarrow>
                  Some (s0\<lparr>InternalFileName :=
                          Some (snprintf_truncate (length name + 10) name)\<rparr>)
              | None \<Rightarrow>
                  (let slicenum = sliceIdx * FileNameSliceSpacing s0 + FileNameSliceOffset s0 in
                   case FilePattern s0 of
                     None \<Rightarrow> Some (s0\<lparr>InternalFileName := None\<rparr>)
                   | Some pattern \<Rightarrow>
                       (case FilePrefix s0 of
                          Some prefix \<Rightarrow>
                            Some (s0\<lparr>InternalFileName :=
                                    Some (snprintf_truncate (length prefix + length pattern + 10)
                                            (format_sd env pattern prefix slicenum))\<rparr>)
                        | None \<Rightarrow>
                            (if hasPercentS pattern
                             then Some (s0\<lparr>InternalFileName :=
                                    Some (snprintf_truncate (length pattern + 10)
                                            (format_sd env pattern [] slicenum))\<rparr>)
                             else Some (s0\<lparr>InternalFileName :=
                                    Some (snprintf_truncate (length pattern + 10)
                                            (format_d env pattern slicenum))\<rparr>)))))))"

section \<open>CloseFile and OpenFile\<close>

text \<open>
  \<open>Stat\<close> on a null path or a path the file system does not have fails; on success it
  gives the size of the file.
\<close>

definition Stat :: "platform \<Rightarrow> string option \<Rightarrow> c_long option" where
  "Stat env path =
     (case path of
        None \<Rightarrow> None
      | Some p \<Rightarrow> map_option (\<lambda>bytes. of_nat (length bytes)) (files env p))"

text \<open>
  \<open>new vtksys::ifstream(path, mode)\<close> on a path that \<open>Stat\<close> has just accepted: the
  stream is on the bytes of the file, at position 0.
\<close>

definition new_ifstream :: "platform \<Rightarrow> string option \<Rightarrow> ifstream option" where
  "new_ifstream env path =
     (case path of
        None \<Rightarrow> None
      | Some p \<Rightarrow>
          map_option (\<lambda>bytes. \<lparr>contents = bytes, gpos = 0, failbit = False\<rparr>) (files env p))"

definition CloseFile :: "vtkImageReader2 \<Rightarrow> vtkImageReader2" where
  "CloseFile s = (case File s of None \<Rightarrow> s | Some f \<Rightarrow> s\<lparr>File := None\<rparr>)"

text \<open>
  The stream is constructed only when \<open>Stat\<close> succeeded; a file that \<open>Stat\<close> finds is
  taken to open without failure. The result is the return value (\<open>True\<close> for 1) and
  the reader.
\<close>

definition OpenFile :: "platform \<Rightarrow> vtkImageReader2 \<Rightarrow> bool \<times> vtkImageReader2" where
  "OpenFile env s =
     (if FileName s = None \<and> FilePattern s = None \<and> FileNames s = None
      then (False, vtkErrorMacro ErrNoFileNameFileNamesOrFilePattern s)
      else
        (let s1 = CloseFile s;
             s2 = (case Stat env (InternalFileName s1) of
                     None \<Rightarrow> s1
                   | Some st_size \<Rightarrow> s1\<lparr>File := new_ifstream env (InternalFileName s1)\<rparr>)
         in case File s2 of
              None \<Rightarrow> (False, vtkErrorMacro (ErrCouldNotOpenFile (InternalFileName s2)) s2)
            | Some f \<Rightarrow>
                (if failbit f
                 then (False, vtkErrorMacro (ErrCouldNotOpenFile (InternalFileName s2)) s2)
                 else (True, s2))))"

section \<open>GetHeaderSize\<close>

text \<open>
  \<open>GetHeaderSize(unsigned long idx)\<close>. The result is the returned header size and the
  reader, whose increments and internal file name the call may have recomputed. The
  index \<open>GetFileDimensionality()\<close> into \<open>DataIncrements\<close> is in range from 0 to 3.
\<close>

definition GetHeaderSize_idx ::
  "platform \<Rightarrow> c_ulong \<Rightarrow> vtkImageReader2 \<Rightarrow> (c_ulong \<times> vtkImageReader2) option" where
  "GetHeaderSize_idx env idx s =
     (if FileName s = None \<and> FilePattern s = None
      then Some (0, vtkErrorMacro ErrNoFileNameOrFilePattern s)
      else if ManualHeaderSize s = 0
      then
        (case ComputeInternalFileName env (long_to_int idx) (ComputeDataIncrements env s) of
           None \<Rightarrow> None
         | Some s2 \<Rightarrow>
             (case Stat env (InternalFileName s2) of
                Some st_size \<Rightarrow>
                  (if 0 \<le> sint (FileDimensionality s2) \<and> sint (FileDimensionality s2) < 4
                   then Some (int_to_ulong (long_to_int
                                (st_size - DataIncrements s2 ! nat (sint (FileDimensionality s2)))),
                              s2)
                   else None)
              | None \<Rightarrow> Some (HeaderSize s2, s2)))
      else Some (HeaderSize s, s))"

definition GetHeaderSize ::
  "platform \<Rightarrow> vtkImageReader2 \<Rightarrow> (c_ulong \<times> vtkImageReader2) option" where
  "GetHeaderSize env s =
     (let firstIdx = (if FileNames s \<noteq> None then 0 else int_to_ulong (DataExtent s ! 4))
      in GetHeaderSize_idx env firstIdx s)"

section \<open>SeekFile\<close>

text \<open>
  The offset \<open>streamStart\<close> that \<open>SeekFile(i, j, k)\<close> computes: the three coordinate
  terms from the stored extent and increments, then the header size of slice \<open>k\<close>.
\<close>

definition streamStart_rows :: "vtkImageReader2 \<Rightarrow> c_int \<Rightarrow> c_int \<Rightarrow> c_int \<Rightarrow> c_ulong" where
  "streamStart_rows s i j k =
     (let streamStart = int_to_ulong (i - DataExtent s ! 0) * DataIncrements s ! 0;
          streamStart1 =
            (if FileLowerLeft s \<noteq> 0
             then streamStart + int_to_ulong (j - DataExtent s ! 2) * DataIncrements s ! 1
             else streamStart
                    + int_to_ulong (DataExtent s ! 3 - DataExtent s ! 2 - j)
                        * DataIncrements s ! 1)
      in if 3 \<le>s FileDimensionality s
         then streamStart1 + int_to_ulong (k - DataExtent s ! 4) * DataIncrements s ! 2
         else streamStart1)"

definition SeekFile_streamStart ::
  "platform \<Rightarrow> c_int \<Rightarrow> c_int \<Rightarrow> c_int \<Rightarrow> vtkImageReader2
     \<Rightarrow> (c_ulong \<times> vtkImageReader2) option" where
  "SeekFile_streamStart env i j k s =
     (case GetHeaderSize_idx env (int_to_ulong k) s of
        None \<Rightarrow> None
      | Some (header, s1) \<Rightarrow> Some (streamStart_rows s i j k + header, s1))"

text \<open>
  \<open>seekg(off, ios::beg)\<close> does nothing on a failed stream and fails for a negative
  offset; a position beyond the end of the file is accepted.
\<close>

definition seekg :: "c_long \<Rightarrow> ifstream \<Rightarrow> ifstream" where
  "seekg off f =
     (if failbit f then f
      else if sint off < 0 then f\<lparr>failbit := True\<rparr>
      else f\<lparr>gpos := nat (sint off)\<rparr>)"

definition SeekFile ::
  "platform \<Rightarrow> c_int \<Rightarrow> c_int \<Rightarrow> c_int \<Rightarrow> vtkImageReader2 \<Rightarrow> vtkImageReader2 option" where
  "SeekFile env i j k s =
     (case SeekFile_streamStart env i j k s of
        None \<Rightarrow> None
      | Some (streamStart, s1) \<Rightarrow>
          (case File s1 of
             None \<Rightarrow> Some (vtkWarningMacro WarnFileMustBeSpecified s1)
           | Some f \<Rightarrow>
               (let f' = seekg streamStart f; s2 = s1\<lparr>File := Some f'\<rparr>
                in if failbit f' then Some (vtkWarningMacro WarnSeekFailed s2) else Some s2)))"

section \<open>The row-by-row read\<close>

text \<open>
  The output \<open>vtkImageData\<close> as the read uses it: its extent, its increments (in
  elements), its number of scalar components, and the bytes of the scalar array that
  \<open>GetScalarPointer()\<close> points to. A position in that array is a byte offset from its
  start.
\<close>

record vtkImageData =
  Extent :: "c_int list"
  Increments :: "vtkIdType list"
  ScalarComponents :: c_int
  ScalarBytes :: "byte list"

text \<open>
  \<open>istream::read(ptr, n)\<close>: a stream that is not good reads nothing and fails;
  otherwise the bytes available up to \<open>n\<close> are delivered and the stream fails when
  their number is not \<open>n\<close>.
\<close>

definition ifstream_read :: "c_long \<Rightarrow> ifstream \<Rightarrow> ifstream \<times> byte list" where
  "ifstream_read n f =
     (if failbit f then (f, [])
      else
        (let got = take (nat (sint n)) (drop (gpos f) (contents f))
         in (f\<lparr>gpos := gpos f + length got, failbit := (int (length got) \<noteq> sint n)\<rparr>, got)))"

text \<open>Storing bytes at an offset of a buffer; outside the buffer it is undefined.\<close>

definition write_bytes :: "byte list \<Rightarrow> int \<Rightarrow> byte list \<Rightarrow> byte list option" where
  "write_bytes buf off bs =
     (if bs = [] then Some buf
      else if 0 \<le> off \<and> nat off + length bs \<le> length buf
      then Some (take (nat off) buf @ bs @ drop (nat off + length bs) buf)
      else None)"

text \<open>
  \<open>vtkByteSwap::SwapVoidRange(ptr, numWords, wordSize)\<close> reverses the bytes of each of
  \<open>numWords\<close> words for the word sizes 2, 4 and 8 and does nothing for any other size.
\<close>

fun swap_words :: "nat \<Rightarrow> nat \<Rightarrow> byte list \<Rightarrow> byte list" where
  "swap_words 0 wordSize bs = bs"
| "swap_words (Suc n) wordSize bs = rev (take wordSize bs) @ swap_words n wordSize (drop wordSize bs)"

definition SwapVoidRange :: "byte list \<Rightarrow> int \<Rightarrow> c_ulong \<Rightarrow> c_ulong \<Rightarrow> byte list option" where
  "SwapVoidRange buf off numWords wordSize =
     (if wordSize = 2 \<or> wordSize = 4 \<or> wordSize = 8
      then
        (if numWords = 0 then Some buf
         else if 0 \<le> off \<and> nat off + unat numWords * unat wordSize \<le> length buf
         then write_bytes buf off
                (swap_words (unat numWords) (unat wordSize)
                   (take (unat numWords * unat wordSize) (drop (nat off) buf)))
         else None)
      else Some buf)"

text \<open>The values fixed before the loops of \<open>vtkImageReader2Update\<close> start.\<close>

record read_locals =
  sizeofOT :: c_ulong
  outExtent :: "c_int list"
  outIncr :: "vtkIdType list"
  nComponents :: c_int
  pixelRead :: c_int
  streamRead :: c_long
  target :: c_ulong

text \<open>
  \<open>(unsigned long)(n / 50.0)\<close> followed by \<open>target++\<close>, for the \<open>int\<close> product \<open>n\<close>.
  The quotient truncates towards zero; a quotient of \<open>-1\<close> or less has no
  \<open>unsigned long\<close> value and the conversion is undefined.
\<close>

definition progress_target :: "c_int \<Rightarrow> c_ulong option" where
  "progress_target n =
     (if sint n \<le> - 50 then None
      else if sint n < 0 then Some (0 + 1)
      else Some (of_int (sint n div 50) + 1))"

definition UpdateProgress :: "c_ulong \<Rightarrow> c_ulong \<Rightarrow> vtkImageReader2 \<Rightarrow> vtkImageReader2" where
  "UpdateProgress cnt tgt s = s\<lparr>ProgressEvents := ProgressEvents s @ [(cnt, tgt)]\<rparr>"

text \<open>
  The number of passes of \<open>for (idx = lo; idx <= hi; ++idx)\<close> over \<open>int\<close>s (for
  \<open>hi < INT_MAX\<close>; the increment overflows otherwise).
\<close>

definition loop_count :: "c_int \<Rightarrow> c_int \<Rightarrow> nat" where
  "loop_count lo hi = nat (sint hi - sint lo + 1)"

text \<open>
  The inner loop over the rows \<open>idx1\<close> of slice \<open>idx2\<close>. The first argument is the
  number of rows left up to \<open>outExtent[3]\<close>. The result is \<open>False\<close> when the function
  returned from inside the loop, with the row counter, the reader and the output.
\<close>

fun read_rows ::
  "platform \<Rightarrow> read_locals \<Rightarrow> c_int \<Rightarrow> nat \<Rightarrow> c_int \<Rightarrow> int \<Rightarrow> c_ulong
     \<Rightarrow> vtkImageReader2 \<Rightarrow> vtkImageData
     \<Rightarrow> (bool \<times> c_ulong \<times> vtkImageReader2 \<times> vtkImageData) option" where
  "read_rows env L idx2 0 idx1 outPtr1 cnt self data = Some (True, cnt, self, data)"
| "read_rows env L idx2 (Suc n) idx1 outPtr1 cnt self data =
     (if AbortExecute self \<noteq> 0 then Some (True, cnt, self, data)
      else
        (let self1 = (if cnt mod target L = 0 then UpdateProgress cnt (target L) self else self);
             cnt1 = cnt + 1
         in case SeekFile env (outExtent L ! 0) idx1 idx2 self1 of
              None \<Rightarrow> None
            | Some self2 \<Rightarrow>
                (case File self2 of
                   None \<Rightarrow> None
                 | Some f \<Rightarrow>
                     (let (f', got) = ifstream_read (streamRead L) f;
                          self3 = self2\<lparr>File := Some f'\<rparr>
                      in case write_bytes (ScalarBytes data) outPtr1 got of
                           None \<Rightarrow> None
                         | Some bytes1 \<Rightarrow>
                             (if failbit f'
                              then Some (False, cnt1,
                                         vtkGenericWarningMacro
                                           (WarnReadFailed idx1 (streamRead L)) self3,
                                         data\<lparr>ScalarBytes := bytes1\<rparr>)
                              else
                                (case (if SwapBytes self3 \<noteq> 0 \<and> 1 < sizeofOT L
                                       then SwapVoidRange bytes1 outPtr1
                                              (int_to_ulong (pixelRead L * nComponents L))
                                              (sizeofOT L)
                                       else Some bytes1) of
                                   None \<Rightarrow> None
                                 | Some bytes2 \<Rightarrow>
                                     read_rows env L idx2 n (idx1 + 1)
                                       (outPtr1 + sint (outIncr L ! 1) * uint (sizeofOT L))
                                       cnt1 self3 (data\<lparr>ScalarBytes := bytes2\<rparr>)))))))"

text \<open>
  \<open>if (self->GetFileDimensionality() == d) { self->ComputeInternalFileName(idx);
  if (!self->OpenFile()) return; }\<close>, with \<open>d = 3\<close> before the loops and \<open>d = 2\<close>
  in each slice. The result is \<open>False\<close> when the function returns at this point.
\<close>

definition resolve_and_open ::
  "platform \<Rightarrow> c_int \<Rightarrow> c_int \<Rightarrow> vtkImageReader2 \<Rightarrow> (bool \<times> vtkImageReader2) option" where
  "resolve_and_open env d idx self =
     (if FileDimensionality self = d
      then map_option (OpenFile env) (ComputeInternalFileName env idx self)
      else Some (True, self))"

text \<open>
  The outer loop over the slices \<open>idx2\<close>; the first argument is the number of slices
  left up to \<open>outExtent[5]\<close>. With file dimensionality 2 each slice resolves and opens
  its own file.
\<close>

fun read_slices ::
  "platform \<Rightarrow> read_locals \<Rightarrow> nat \<Rightarrow> c_int \<Rightarrow> int \<Rightarrow> c_ulong
     \<Rightarrow> vtkImageReader2 \<Rightarrow> vtkImageData \<Rightarrow> (vtkImageReader2 \<times> vtkImageData) option" where
  "read_slices env L 0 idx2 outPtr2 cnt self data = Some (self, data)"
| "read_slices env L (Suc n) idx2 outPtr2 cnt self data =
     (case resolve_and_open env 2 idx2 self of
        None \<Rightarrow> None
      | Some (opened, self1) \<Rightarrow>
          (if \<not> opened then Some (self1, data)
           else
             (case read_rows env L idx2 (loop_count (outExtent L ! 2) (outExtent L ! 3))
                     (outExtent L ! 2) outPtr2 cnt self1 data of
                None \<Rightarrow> None
              | Some (finished, cnt1, self2, data1) \<Rightarrow>
                  (if \<not> finished then Some (self2, data1)
                   else read_slices env L n (idx2 + 1)
                          (outPtr2 + sint (outIncr L ! 2) * uint (sizeofOT L))
                          cnt1 self2 data1))))"

text \<open>\<open>vtkImageReader2Update\<close> instantiated at an element type of \<open>sizeof(OT) = sz\<close>.\<close>

definition vtkImageReader2Update ::
  "platform \<Rightarrow> c_ulong \<Rightarrow> vtkImageReader2 \<Rightarrow> vtkImageData
     \<Rightarrow> (vtkImageReader2 \<times> vtkImageData) option" where
  "vtkImageReader2Update env sz self data =
     (let ext = Extent data;
          pixels = ext ! 1 - ext ! 0 + 1
      in case progress_target ((ext ! 5 - ext ! 4 + 1) * (ext ! 3 - ext ! 2 + 1)) of
           None \<Rightarrow> None
         | Some tgt \<Rightarrow>
             (let L = \<lparr>sizeofOT = sz, outExtent = ext, outIncr = Increments data,
                       nComponents = ScalarComponents data, pixelRead = pixels,
                       streamRead = int_to_ulong (pixels * ScalarComponents data) * sz,
                       target = tgt\<rparr>
              in case resolve_and_open env 3 0 self of
                   None \<Rightarrow> None
                 | Some (opened, self1) \<Rightarrow>
                     (if \<not> opened then Some (self1, data)
                      else read_slices env L (loop_count (ext ! 4) (ext ! 5)) (ext ! 4) 0 0
                             self1 data)))"

section \<open>ExecuteDataWithInformation\<close>

text \<open>
  The argument \<open>data\<close> is the output that \<open>AllocateOutputData\<close> returned. The dispatch
  on the scalar type instantiates \<open>vtkImageReader2Update\<close> at the element size.
\<close>

definition ExecuteDataWithInformation ::
  "platform \<Rightarrow> vtkImageReader2 \<Rightarrow> vtkImageData \<Rightarrow> (vtkImageReader2 \<times> vtkImageData) option" where
  "ExecuteDataWithInformation env s data =
     (if FileName s = None \<and> FilePattern s = None
      then Some (vtkErrorMacro ErrNoValidFileNameOrFilePattern s, data)
      else
        (let s1 = ComputeDataIncrements env s
         in case scalar_size env (DataScalarType s1) of
              None \<Rightarrow> Some (vtkErrorMacro ErrUpdateFromFileUnknownDataType s1, data)
            | Some sz \<Rightarrow> vtkImageReader2Update env sz s1 data))"

section \<open>A reader with other memory buffer fields\<close>

text \<open>
  The reader \<open>s\<close> with the memory buffer, its length and the modification time
  replaced: the three fields that \<open>SetMemoryBuffer\<close> and \<open>SetMemoryBufferLength\<close>
  write.
\<close>

definition with_memory_buffer ::
  "nat option \<Rightarrow> vtkIdType \<Rightarrow> nat \<Rightarrow> vtkImageReader2 \<Rightarrow> vtkImageReader2" where
  "with_memory_buffer m l t s = s\<lparr>MemoryBuffer := m, MemoryBufferLength := l, MTime := t\<rparr>"

section \<open>Concrete configurations\<close>

text \<open>
  Modelled from the spec: the scalar kinds, which are the 8, 16, 32 and 64-bit signed
  and unsigned integers and the 32 and 64-bit floats. \<open>vtkType.h\<close> and \<open>vtkSetGet.h\<close>,
  which declare the tags and the dispatch, are not among the sources. This is the
  platform of the concrete evaluations below; the general statements hold for every
  platform. The element sizes are those of the
  numeric scalar types on LP64 under the tags of \<open>vtkType.h\<close>: 1 byte for \<open>char\<close>
  (2), \<open>unsigned char\<close> (3) and \<open>signed char\<close> (15), 2 for \<open>short\<close> (4) and
  \<open>unsigned short\<close> (5), 4 for \<open>int\<close> (6), \<open>unsigned int\<close> (7) and \<open>float\<close> (10),
  8 for \<open>long\<close> (8), \<open>unsigned long\<close> (9), \<open>double\<close> (11), \<open>vtkIdType\<close> (12),
  \<open>long long\<close> (16) and \<open>unsigned long long\<close> (17); every other tag is unsupported.
  The files are given as a list of paths with their bytes. The configurations below
  name their files by \<open>FileName\<close> or \<open>FileNames\<close>, so no pattern is ever formatted
  and the two formatters are left empty.
\<close>

definition vtk_scalar_size :: "c_int \<Rightarrow> c_ulong option" where
  "vtk_scalar_size t =
     (if t = 2 \<or> t = 3 \<or> t = 15 then Some 1
      else if t = 4 \<or> t = 5 then Some 2
      else if t = 6 \<or> t = 7 \<or> t = 10 then Some 4
      else if t = 8 \<or> t = 9 \<or> t = 11 \<or> t = 12 \<or> t = 16 \<or> t = 17 then Some 8
      else None)"

definition example_platform :: "(string \<times> byte list) list \<Rightarrow> platform" where
  "example_platform fs =
     \<lparr>scalar_size = vtk_scalar_size, files = map_of fs,
      format_sd = (\<lambda>pattern prefix n. []), format_d = (\<lambda>pattern n. [])\<rparr>"

text \<open>A new reader with the extent set to 4 by 2 by 1 samples.\<close>

definition reader_4x2 :: vtkImageReader2 where
  "reader_4x2 = vtkImageReader2_new\<lparr>DataExtent := [0, 3, 0, 1, 0, 0]\<rparr>"

text \<open>A new reader with the scalar type set to tag 13 (\<open>VTK_STRING\<close>).\<close>

definition reader_string_type :: vtkImageReader2 where
  "reader_string_type = vtkImageReader2_new\<lparr>DataScalarType := 13\<rparr>"

text \<open>
  A list of three file names; a reader on which that list was set and whose extent
  was set afterwards, with Z bounds 5 and 9.
\<close>

definition three_names :: vtkStringArray where
  "three_names = \<lparr>ObjectId = 1, StringValues = [''s0.raw'', ''s1.raw'', ''s2.raw'']\<rparr>"

definition reader_with_list_and_extent :: vtkImageReader2 where
  "reader_with_list_and_extent =
     (SetFileNames (Some three_names) vtkImageReader2_new)\<lparr>DataExtent := [0, 0, 0, 0, 5, 9]\<rparr>"

text \<open>A reader on which a pattern and then a single file name were set.\<close>

definition reader_pattern_then_name :: vtkImageReader2 where
  "reader_pattern_then_name =
     SetFileName (Some ''a.raw'') (SetFilePattern (Some ''slice.%d'') vtkImageReader2_new)"

text \<open>
  A reader named after a file the platform does not have, and one named after a file
  that exists; both keep the default element (one 16-bit component) and the default
  extent of one sample, so one slice of data is 2 bytes.
\<close>

definition reader_missing_file :: vtkImageReader2 where
  "reader_missing_file = SetFileName (Some ''missing.raw'') vtkImageReader2_new"

definition reader_one_sample :: vtkImageReader2 where
  "reader_one_sample = SetFileName (Some ''img.raw'') vtkImageReader2_new"

text \<open>
  A volume of 2 by 1 by 2 unsigned bytes read with file dimensionality 3 from a list
  of two names, of which only the first exists; the output allocated for it.
\<close>

definition two_names :: vtkStringArray where
  "two_names = \<lparr>ObjectId = 2, StringValues = [''vol.raw'', ''gone.raw'']\<rparr>"

definition reader_volume :: vtkImageReader2 where
  "reader_volume =
     (SetFileNames (Some two_names) vtkImageReader2_new)
       \<lparr>DataScalarType := 3, DataExtent := [0, 1, 0, 0, 0, 1], FileDimensionality := 3\<rparr>"

definition output_2x1x2 :: vtkImageData where
  "output_2x1x2 =
     \<lparr>Extent = [0, 1, 0, 0, 0, 1], Increments = [1, 2, 2], ScalarComponents = 1,
      ScalarBytes = [0, 0, 0, 0]\<rparr>"

text \<open>
  A reader of one column of two rows whose Y bounds are 1 and 2, with the increments
  computed for 16-bit samples and a manual header size of 0.
\<close>

definition reader_rows_1_2 :: vtkImageReader2 where
  "reader_rows_1_2 =
     SetHeaderSize 0
       (ComputeDataIncrements (example_platform [])
          ((SetFileName (Some ''img.raw'') vtkImageReader2_new)
             \<lparr>DataExtent := [0, 0, 1, 2, 0, 0]\<rparr>))"

text \<open>
  The reader of one sample with the file \<open>img.raw\<close> open at its start, as \<open>OpenFile\<close>
  leaves it when the file holds a three-byte header and one sample.
\<close>

definition reader_open_sample :: vtkImageReader2 where
  "reader_open_sample =
     reader_one_sample
       \<lparr>InternalFileName := Some ''img.raw'',
        File := Some \<lparr>contents = [9, 9, 9, 1, 2], gpos = 0, failbit = False\<rparr>\<rparr>"

text \<open>
  A reader on which the pattern was set to null and then the list of three names was
  set; the three files of one 16-bit sample each; the output allocated for the three
  slices.
\<close>

definition reader_list_only :: vtkImageReader2 where
  "reader_list_only = SetFileNames (Some three_names) (SetFilePattern None vtkImageReader2_new)"

definition three_files :: "(string \<times> byte list) list" where
  "three_files = [(''s0.raw'', [1, 2]), (''s1.raw'', [3, 4]), (''s2.raw'', [5, 6])]"

definition output_1x1x3 :: vtkImageData where
  "output_1x1x3 =
     \<lparr>Extent = [0, 0, 0, 0, 0, 2], Increments = [1, 1, 1], ScalarComponents = 1,
      ScalarBytes = [0, 0, 0, 0, 0, 0]\<rparr>"

text \<open>
  The reader of one sample on which a memory buffer of length 2 was set; the output
  allocated for one sample.
\<close>

definition reader_with_buffer :: vtkImageReader2 where
  "reader_with_buffer = SetMemoryBufferLength 2 (SetMemoryBuffer (Some 1) reader_one_sample)"

definition output_one_sample :: vtkImageData where
  "output_one_sample =
     \<lparr>Extent = [0, 0, 0, 0, 0, 0], Increments = [1, 1, 1], ScalarComponents = 1,
      ScalarBytes = [0, 0]\<rparr>"

text \<open>
  The reader of the volume after the increments were computed, with the file of
  slice 0 open at its start, as the read has it when it seeks a row.
\<close>

definition reader_volume_open :: vtkImageReader2 where
  "reader_volume_open =
     (ComputeDataIncrements (example_platform []) reader_volume)
       \<lparr>InternalFileName := Some ''vol.raw'',
        File := Some \<lparr>contents = [99, 10, 11, 12, 13], gpos = 0, failbit = False\<rparr>\<rparr>"

text \<open>
  A reader of 2 by 6 by 2 samples of 16 bits whose extent starts at 1 on every axis,
  with the increments computed (2, 4, 24, 48), a manual header size of 3 and the file
  \<open>vol.raw\<close> of 3 + 48 bytes open at its start.
\<close>

definition reader_grid :: vtkImageReader2 where
  "reader_grid =
     (SetHeaderSize 3
        (ComputeDataIncrements (example_platform [])
           ((SetFileName (Some ''vol.raw'') vtkImageReader2_new)
              \<lparr>DataExtent := [1, 2, 1, 6, 1, 2]\<rparr>)))
       \<lparr>InternalFileName := Some ''vol.raw'',
        File := Some \<lparr>contents = replicate 51 7, gpos = 0, failbit = False\<rparr>\<rparr>"

section \<open>Properties of ComputeDataIncrements\<close>

lemma upt_0_3: "[0..<3] = [0, Suc 0, Suc (Suc 0)]"
  by (simp add: upt_rec)

lemma increments_fold:
  "fold (increments_step s) [0..<3] (incs, l) =
     (incs[0 := l, Suc 0 := l * int_to_ulong (axisSize s 0),
           Suc (Suc 0) := l * int_to_ulong (axisSize s 0) * int_to_ulong (axisSize s (Suc 0))],
      l * int_to_ulong (axisSize s 0) * int_to_ulong (axisSize s (Suc 0))
        * int_to_ulong (axisSize s (Suc (Suc 0))))"
  by (simp add: upt_0_3 increments_step_def)

lemma ComputeDataIncrements_Some:
  assumes "scalar_size env (DataScalarType s) = Some sz"
  shows "ComputeDataIncrements env s =
     s\<lparr>DataIncrements :=
        (DataIncrements s)
          [0 := sz * int_to_ulong (NumberOfScalarComponents s),
           Suc 0 := sz * int_to_ulong (NumberOfScalarComponents s) * int_to_ulong (axisSize s 0),
           Suc (Suc 0) := sz * int_to_ulong (NumberOfScalarComponents s)
              * int_to_ulong (axisSize s 0) * int_to_ulong (axisSize s (Suc 0)),
           3 := sz * int_to_ulong (NumberOfScalarComponents s)
              * int_to_ulong (axisSize s 0) * int_to_ulong (axisSize s (Suc 0))
              * int_to_ulong (axisSize s (Suc (Suc 0)))]\<rparr>"
  using assms by (simp add: ComputeDataIncrements_def increments_fold Let_def)

lemma ComputeDataIncrements_None:
  assumes "scalar_size env (DataScalarType s) = None"
  shows "ComputeDataIncrements env s = vtkErrorMacro ErrUnknownDataScalarType s"
  using assms by (simp add: ComputeDataIncrements_def)

lemma unat_int_to_ulong: "0 \<le> sint x \<Longrightarrow> unat (int_to_ulong x) = nat (sint x)"
proof -
  assume nonneg: "0 \<le> sint x"
  have "sint x < 2 ^ 31" using sint_lt [of x] by simp
  then have lt: "sint x < 2 ^ 64" by simp
  have "int_to_ulong x = word_of_int (sint x)"
    unfolding int_to_ulong_def by (rule scast_eq)
  then have "unat (int_to_ulong x) = unat (word_of_int (sint x) :: c_ulong)"
    by simp
  also have "\<dots> = nat (sint x)"
    using nonneg lt by (simp add: unsigned_of_int take_bit_int_eq_self del: of_int_sint)
  finally show ?thesis .
qed

lemma sint_axis:
  fixes a b :: c_int
  assumes "sint a \<le> sint b" and "sint b - sint a + 1 < 2 ^ 31"
  shows "sint (b - a + 1) = sint b - sint a + 1"
proof -
  have "sint (b - a) = sint b - sint a"
    using assms by (simp add: sint_word_ariths signed_take_bit_int_eq_self)
  then show ?thesis
    using assms by (simp add: sint_word_ariths signed_take_bit_int_eq_self)
qed

lemma unat_axisSize:
  assumes "sint (DataExtent s ! (a * 2)) \<le> sint (DataExtent s ! (a * 2 + 1))"
    and "axis_samples s a < 2 ^ 31"
  shows "unat (int_to_ulong (axisSize s a)) = axis_samples s a"
proof -
  have lt: "sint (DataExtent s ! (a * 2 + 1)) - sint (DataExtent s ! (a * 2)) + 1 < 2 ^ 31"
    using assms by (simp add: axis_samples_def)
  have "sint (axisSize s a)
      = sint (DataExtent s ! (a * 2 + 1)) - sint (DataExtent s ! (a * 2)) + 1"
    unfolding axisSize_def by (rule sint_axis [OF assms(1) lt])
  then show ?thesis
    using assms(1) by (simp add: unat_int_to_ulong axis_samples_def)
qed

lemma unat_mult_64:
  fixes x y :: c_ulong
  assumes "unat x * unat y < 2 ^ 64"
  shows "unat (x * y) = unat x * unat y"
  using assms unat_mult_lem [of x y] by simp


lemma ComputeDataIncrements_strides_nat:
  assumes sz: "scalar_size env (DataScalarType s) = Some w"
    and wf: "wf_arrays s"
    and valid: "\<forall>a \<in> {0, 1, 2}. sint (DataExtent s ! (a * 2)) \<le> sint (DataExtent s ! (a * 2 + 1))"
    and small: "\<forall>a \<in> {0, 1, 2}. axis_samples s a < 2 ^ 31"
    and comps: "0 < sint (NumberOfScalarComponents s)"
    and total: "unat w * nat (sint (NumberOfScalarComponents s))
                  * axis_samples s 0 * axis_samples s 1 * axis_samples s 2 < 2 ^ 64"
  shows "unat (DataIncrements (ComputeDataIncrements env s) ! 0)
           = unat w * nat (sint (NumberOfScalarComponents s))
       \<and> (\<forall>k \<in> {1, 2, 3}.
            unat (DataIncrements (ComputeDataIncrements env s) ! k)
              = unat (DataIncrements (ComputeDataIncrements env s) ! (k - 1))
                  * axis_samples s (k - 1))"
proof -
  let ?n = "nat (sint (NumberOfScalarComponents s))"
  let ?N = "int_to_ulong (NumberOfScalarComponents s)"
  let ?A = "\<lambda>a. int_to_ulong (axisSize s a)"
  have N: "unat ?N = ?n" using comps by (simp add: unat_int_to_ulong)
  have axis: "unat (?A a) = axis_samples s a" if "a \<in> {0, 1, 2}" for a
    using valid small that by (intro unat_axisSize) blast+
  have two: "Suc (Suc 0) = 2" by simp
  have A: "unat (?A 0) = axis_samples s 0" "unat (?A (Suc 0)) = axis_samples s 1"
    "unat (?A (Suc (Suc 0))) = axis_samples s 2"
    using axis [of 0] axis [of 1] axis [of 2] by (simp_all add: two)
  have pos: "1 \<le> ?n" "1 \<le> axis_samples s 0" "1 \<le> axis_samples s 1" "1 \<le> axis_samples s 2"
    using comps valid by (auto simp add: axis_samples_def)
  have t2: "unat w * ?n * axis_samples s 0 * axis_samples s 1 < 2 ^ 64"
    using total pos(4)
    by (metis (no_types, lifting) le_less_trans mult.right_neutral mult_le_mono2)
  have t1: "unat w * ?n * axis_samples s 0 < 2 ^ 64"
    using t2 pos(3)
    by (metis (no_types, lifting) le_less_trans mult.right_neutral mult_le_mono2)
  have t0: "unat w * ?n < 2 ^ 64"
    using t1 pos(2)
    by (metis (no_types, lifting) le_less_trans mult.right_neutral mult_le_mono2)
  have l0: "unat (w * ?N) = unat w * ?n"
    using t0 N by (simp add: unat_mult_64)
  have l1: "unat (w * ?N * ?A 0) = unat w * ?n * axis_samples s 0"
    using t1 l0 A(1) by (simp add: unat_mult_64)
  have l2: "unat (w * ?N * ?A 0 * ?A (Suc 0)) = unat w * ?n * axis_samples s 0 * axis_samples s 1"
    using t2 l1 A(2) by (simp add: unat_mult_64)
  have l3: "unat (w * ?N * ?A 0 * ?A (Suc 0) * ?A (Suc (Suc 0)))
      = unat w * ?n * axis_samples s 0 * axis_samples s 1 * axis_samples s 2"
    using total l2 A(3) by (simp add: unat_mult_64)
  show ?thesis
    using wf l0 l1 l2 l3
    by (simp add: ComputeDataIncrements_Some [OF sz] wf_arrays_def eval_nat_numeral)
qed


lemma ComputeDataIncrements_strides_word:
  assumes "scalar_size env (DataScalarType s) = Some w"
    and "wf_arrays s"
  shows "DataIncrements (ComputeDataIncrements env s) ! 0
           = w * int_to_ulong (NumberOfScalarComponents s)
       \<and> (\<forall>k \<in> {1, 2, 3}.
            DataIncrements (ComputeDataIncrements env s) ! k
              = DataIncrements (ComputeDataIncrements env s) ! (k - 1)
                  * int_to_ulong (axisSize s (k - 1)))"
  using assms
  by (simp add: ComputeDataIncrements_Some wf_arrays_def eval_nat_numeral)

text \<open>
  C10. When the scalar type tag falls into the \<open>default:\<close> branch of the dispatch,
  \<open>ComputeDataIncrements\<close> reports \<open>Unknown DataScalarType\<close> and returns; the four
  stored increments, and every other field, are as they were.
\<close>

theorem ComputeDataIncrements_unknown_type:
  assumes "scalar_size env (DataScalarType s) = None"
  shows "DataIncrements (ComputeDataIncrements env s) = DataIncrements s
       \<and> Messages (ComputeDataIncrements env s) = Messages s @ [ErrUnknownDataScalarType]
       \<and> ComputeDataIncrements env s = s\<lparr>Messages := Messages s @ [ErrUnknownDataScalarType]\<rparr>"
  using assms by (simp add: ComputeDataIncrements_def vtkErrorMacro_def)

theorem ComputeDataIncrements_unknown_type_witness:
  "scalar_size (example_platform []) (DataScalarType reader_string_type) = None
   \<and> DataIncrements (ComputeDataIncrements (example_platform []) reader_string_type)
        = [1, 1, 1, 1]
   \<and> Messages (ComputeDataIncrements (example_platform []) reader_string_type)
        = [ErrUnknownDataScalarType]"
proof -
  have h: "scalar_size (example_platform []) (DataScalarType reader_string_type) = None"
    by (simp add: example_platform_def vtk_scalar_size_def reader_string_type_def
        vtkImageReader2_new_def)
  show ?thesis
    using h ComputeDataIncrements_unknown_type [OF h]
    by (simp add: reader_string_type_def vtkImageReader2_new_def)
qed

text \<open>
  C8. For a scalar type the dispatch supports, with element width \<open>w\<close>, the recomputed
  increments satisfy \<open>increments[0] = w * components\<close> and
  \<open>increments[k] = increments[k-1] * axisSize(k-1)\<close> for \<open>k = 1, 2, 3\<close>, where
  \<open>axisSize(a)\<close> is \<open>max - min + 1\<close> along axis \<open>a\<close>. The equations hold in the
  code's arithmetic (\<open>unsigned long\<close> products of the \<open>int\<close> axis sizes) for every
  extent and component count; for a valid extent and a positive component count they
  hold between the numbers themselves as long as each axis size fits an \<open>int\<close> and the
  total byte size fits an \<open>unsigned long\<close>.
\<close>

theorem ComputeDataIncrements_strides:
  assumes "scalar_size env (DataScalarType s) = Some w"
    and "wf_arrays s"
  shows "DataIncrements (ComputeDataIncrements env s) ! 0
           = w * int_to_ulong (NumberOfScalarComponents s)
       \<and> (\<forall>k \<in> {1, 2, 3}.
            DataIncrements (ComputeDataIncrements env s) ! k
              = DataIncrements (ComputeDataIncrements env s) ! (k - 1)
                  * int_to_ulong (axisSize s (k - 1)))
       \<and> ((\<forall>a \<in> {0, 1, 2}.
               sint (DataExtent s ! (a * 2)) \<le> sint (DataExtent s ! (a * 2 + 1))
             \<and> axis_samples s a < 2 ^ 31)
           \<and> 0 < sint (NumberOfScalarComponents s)
           \<and> unat w * nat (sint (NumberOfScalarComponents s))
                * axis_samples s 0 * axis_samples s 1 * axis_samples s 2 < 2 ^ 64
           \<longrightarrow>
             unat (DataIncrements (ComputeDataIncrements env s) ! 0)
               = unat w * nat (sint (NumberOfScalarComponents s))
           \<and> (\<forall>k \<in> {1, 2, 3}.
                unat (DataIncrements (ComputeDataIncrements env s) ! k)
                  = unat (DataIncrements (ComputeDataIncrements env s) ! (k - 1))
                      * axis_samples s (k - 1)))"
proof (intro conjI impI)
  show "DataIncrements (ComputeDataIncrements env s) ! 0
      = w * int_to_ulong (NumberOfScalarComponents s)"
    using ComputeDataIncrements_strides_word [OF assms] by blast
  show "\<forall>k \<in> {1, 2, 3}.
      DataIncrements (ComputeDataIncrements env s) ! k
        = DataIncrements (ComputeDataIncrements env s) ! (k - 1)
            * int_to_ulong (axisSize s (k - 1))"
    using ComputeDataIncrements_strides_word [OF assms] by blast
next
  assume h: "(\<forall>a \<in> {0, 1, 2}.
               sint (DataExtent s ! (a * 2)) \<le> sint (DataExtent s ! (a * 2 + 1))
             \<and> axis_samples s a < 2 ^ 31)
           \<and> 0 < sint (NumberOfScalarComponents s)
           \<and> unat w * nat (sint (NumberOfScalarComponents s))
                * axis_samples s 0 * axis_samples s 1 * axis_samples s 2 < 2 ^ 64"
  then have valid: "\<forall>a \<in> {0, 1, 2}.
      sint (DataExtent s ! (a * 2)) \<le> sint (DataExtent s ! (a * 2 + 1))"
    and small: "\<forall>a \<in> {0, 1, 2}. axis_samples s a < 2 ^ 31"
    and comps: "0 < sint (NumberOfScalarComponents s)"
    and total: "unat w * nat (sint (NumberOfScalarComponents s))
                  * axis_samples s 0 * axis_samples s 1 * axis_samples s 2 < 2 ^ 64"
    by blast+
  note nat = ComputeDataIncrements_strides_nat [OF assms valid small comps total]
  show "unat (DataIncrements (ComputeDataIncrements env s) ! 0)
      = unat w * nat (sint (NumberOfScalarComponents s))"
    using nat by blast
  show "\<forall>k \<in> {1, 2, 3}.
      unat (DataIncrements (ComputeDataIncrements env s) ! k)
        = unat (DataIncrements (ComputeDataIncrements env s) ! (k - 1)) * axis_samples s (k - 1)"
    using nat by blast
qed

theorem ComputeDataIncrements_strides_witness:
  "scalar_size (example_platform []) (DataScalarType reader_4x2) = Some 2
   \<and> wf_arrays reader_4x2
   \<and> DataIncrements (ComputeDataIncrements (example_platform []) reader_4x2) ! 0 = 2
   \<and> DataIncrements (ComputeDataIncrements (example_platform []) reader_4x2) ! 1
        = DataIncrements (ComputeDataIncrements (example_platform []) reader_4x2) ! 0 * 4
   \<and> DataIncrements (ComputeDataIncrements (example_platform []) reader_4x2) ! 2
        = DataIncrements (ComputeDataIncrements (example_platform []) reader_4x2) ! 1 * 2
   \<and> DataIncrements (ComputeDataIncrements (example_platform []) reader_4x2) ! 3
        = DataIncrements (ComputeDataIncrements (example_platform []) reader_4x2) ! 2 * 1
   \<and> axis_samples reader_4x2 0 = 4 \<and> axis_samples reader_4x2 1 = 2
   \<and> axis_samples reader_4x2 2 = 1
   \<and> unat (DataIncrements (ComputeDataIncrements (example_platform []) reader_4x2) ! 0) = 2
   \<and> unat (DataIncrements (ComputeDataIncrements (example_platform []) reader_4x2) ! 1)
        = unat (DataIncrements (ComputeDataIncrements (example_platform []) reader_4x2) ! 0) * 4
   \<and> unat (DataIncrements (ComputeDataIncrements (example_platform []) reader_4x2) ! 2)
        = unat (DataIncrements (ComputeDataIncrements (example_platform []) reader_4x2) ! 1) * 2
   \<and> unat (DataIncrements (ComputeDataIncrements (example_platform []) reader_4x2) ! 3)
        = unat (DataIncrements (ComputeDataIncrements (example_platform []) reader_4x2) ! 2) * 1"
proof -
  have h: "scalar_size (example_platform []) (DataScalarType reader_4x2) = Some 2"
    by (simp add: example_platform_def vtk_scalar_size_def reader_4x2_def
        vtkImageReader2_new_def VTK_SHORT_def)
  have w: "wf_arrays reader_4x2"
    by (simp add: wf_arrays_def reader_4x2_def vtkImageReader2_new_def)
  have a: "int_to_ulong (NumberOfScalarComponents reader_4x2) = 1"
    "int_to_ulong (axisSize reader_4x2 0) = 4"
    "int_to_ulong (axisSize reader_4x2 1) = 2"
    "int_to_ulong (axisSize reader_4x2 2) = 1"
    by (simp_all add: int_to_ulong_def axisSize_def reader_4x2_def vtkImageReader2_new_def)
  have e: "DataExtent reader_4x2 = [0, 3, 0, 1, 0, 0]"
    "sint (NumberOfScalarComponents reader_4x2) = 1"
    by (simp_all add: reader_4x2_def vtkImageReader2_new_def)
  have n: "axis_samples reader_4x2 0 = 4" "axis_samples reader_4x2 1 = 2"
    "axis_samples reader_4x2 2 = 1"
    by (simp_all add: axis_samples_def e)
  show ?thesis
    using h w a e n ComputeDataIncrements_strides [OF h w]
    by simp
qed

section \<open>Properties of the setters\<close>

lemma at_most_one_name_iff:
  "at_most_one_name s \<longleftrightarrow>
     (FileName s = None \<and> FileNames s = None) \<or> (FileName s = None \<and> FilePrefix s = None)
       \<or> (FileNames s = None \<and> FilePrefix s = None)"
  by (auto simp add: at_most_one_name_def names_set_def)

lemma at_most_one_name_SetFileName:
  "at_most_one_name s \<Longrightarrow> at_most_one_name (SetFileName name s)"
  by (cases name) (auto simp add: at_most_one_name_iff SetFileName_def Modified_def Let_def)

lemma at_most_one_name_SetFileNames:
  "at_most_one_name s \<Longrightarrow> at_most_one_name (SetFileNames filenames s)"
  by (cases filenames)
    (auto simp add: at_most_one_name_iff SetFileNames_def Modified_def Let_def)

lemma at_most_one_name_SetFilePrefix:
  "at_most_one_name s \<Longrightarrow> at_most_one_name (SetFilePrefix prefix s)"
  by (cases prefix) (auto simp add: at_most_one_name_iff SetFilePrefix_def Modified_def Let_def)

lemma at_most_one_name_SetFilePattern:
  "at_most_one_name s \<Longrightarrow> at_most_one_name (SetFilePattern pattern s)"
  by (cases pattern)
    (auto simp add: at_most_one_name_iff SetFilePattern_def Modified_def Let_def)

lemma at_most_one_name_apply_setter:
  "at_most_one_name s \<Longrightarrow> at_most_one_name (apply_setter c s)"
  by (cases c)
    (simp_all add: at_most_one_name_SetFileName at_most_one_name_SetFileNames
      at_most_one_name_SetFilePrefix at_most_one_name_SetFilePattern)

lemma at_most_one_name_apply_setters:
  "at_most_one_name s \<Longrightarrow> at_most_one_name (apply_setters calls s)"
  unfolding apply_setters_def
  by (induction calls arbitrary: s) (simp_all add: at_most_one_name_apply_setter)

lemma at_most_one_name_new: "at_most_one_name vtkImageReader2_new"
  by (simp add: at_most_one_name_iff vtkImageReader2_new_def)

lemma SetFileName_clears:
  "at_most_one_name s \<Longrightarrow>
     FileName (SetFileName (Some n) s) = Some n \<and> FileNames (SetFileName (Some n) s) = None
       \<and> FilePrefix (SetFileName (Some n) s) = None
       \<and> FilePattern (SetFileName (Some n) s) = FilePattern s"
  by (auto simp add: at_most_one_name_iff SetFileName_def Modified_def Let_def)

lemma SetFileNames_clears:
  "at_most_one_name s \<Longrightarrow>
     map_option ObjectId (FileNames (SetFileNames (Some a) s)) = Some (ObjectId a)
       \<and> FileName (SetFileNames (Some a) s) = None
       \<and> FilePrefix (SetFileNames (Some a) s) = None
       \<and> FilePattern (SetFileNames (Some a) s) = FilePattern s"
  by (cases "FileNames s")
    (auto simp add: at_most_one_name_iff SetFileNames_def Modified_def Let_def)

lemma SetFilePrefix_clears:
  "at_most_one_name s \<Longrightarrow>
     FilePrefix (SetFilePrefix (Some p) s) = Some p \<and> FileName (SetFilePrefix (Some p) s) = None
       \<and> FileNames (SetFilePrefix (Some p) s) = None
       \<and> FilePattern (SetFilePrefix (Some p) s) = FilePattern s"
  by (auto simp add: at_most_one_name_iff SetFilePrefix_def Modified_def Let_def)

lemma SetFilePattern_clears:
  "FilePattern (SetFilePattern (Some p) s) = Some p
     \<and> (FilePattern s \<noteq> Some p \<longrightarrow>
          FileName (SetFilePattern (Some p) s) = None
        \<and> FileNames (SetFilePattern (Some p) s) = None)
     \<and> FilePrefix (SetFilePattern (Some p) s) = FilePrefix s"
  by (auto simp add: SetFilePattern_def Modified_def Let_def)

text \<open>
  C2, as stated, fails. On a new reader, setting the pattern \<open>slice.%d\<close> and then the
  single file name \<open>a.raw\<close> leaves both the file name and the pattern set: no setter of
  another strategy clears \<open>FilePattern\<close>, and two strategies are then observed as set.
\<close>

theorem setters_keep_pattern_counterexample:
  "FileName reader_pattern_then_name = Some ''a.raw''
   \<and> FilePattern reader_pattern_then_name = Some ''slice.%d''
   \<and> strategies_set reader_pattern_then_name = 2"
  by (simp add: reader_pattern_then_name_def SetFileName_def SetFilePattern_def
      vtkImageReader2_new_def Modified_def Let_def strategies_set_def)

text \<open>
  C2, amended. Starting from a reader on which at most one of \<open>FileName\<close>,
  \<open>FileNames\<close>, \<open>FilePrefix\<close> is set (a new reader is one), any sequence of the four
  setters leaves at most one of the three set. On such a reader \<open>SetFileName\<close> with a
  non-null name leaves \<open>FileNames\<close> and \<open>FilePrefix\<close> null, \<open>SetFileNames\<close> with a
  non-null list leaves \<open>FileName\<close> and \<open>FilePrefix\<close> null, \<open>SetFilePrefix\<close> with a
  non-null prefix leaves \<open>FileName\<close> and \<open>FileNames\<close> null, and \<open>SetFilePattern\<close>
  with a pattern other than the stored one leaves \<open>FileName\<close> and \<open>FileNames\<close> null.
  \<open>FilePattern\<close> is kept by the three other setters.
\<close>

theorem setters_keep_one_name:
  assumes "at_most_one_name s"
  shows "at_most_one_name (apply_setters calls s)
       \<and> FileNames (SetFileName (Some n) s) = None
       \<and> FilePrefix (SetFileName (Some n) s) = None
       \<and> FileName (SetFileNames (Some a) s) = None
       \<and> FilePrefix (SetFileNames (Some a) s) = None
       \<and> FileName (SetFilePrefix (Some p) s) = None
       \<and> FileNames (SetFilePrefix (Some p) s) = None
       \<and> (FilePattern s \<noteq> Some q \<longrightarrow>
            FileName (SetFilePattern (Some q) s) = None
          \<and> FileNames (SetFilePattern (Some q) s) = None)
       \<and> FilePattern (SetFileName (Some n) s) = FilePattern s
       \<and> FilePattern (SetFileNames (Some a) s) = FilePattern s
       \<and> FilePattern (SetFilePrefix (Some p) s) = FilePattern s"
  using at_most_one_name_apply_setters [OF assms, of calls]
    SetFileName_clears [OF assms, of n] SetFileNames_clears [OF assms, of a]
    SetFilePrefix_clears [OF assms, of p] SetFilePattern_clears [of q s]
  by simp

theorem setters_keep_one_name_witness:
  "at_most_one_name vtkImageReader2_new
   \<and> at_most_one_name
       (apply_setters [CallSetFilePrefix (Some ''img''), CallSetFileName (Some ''a.raw'')]
          vtkImageReader2_new)
   \<and> FileNames (SetFileName (Some ''a.raw'') vtkImageReader2_new) = None
   \<and> FileName (SetFilePattern (Some ''slice.%d'') vtkImageReader2_new) = None"
proof -
  have h: "at_most_one_name vtkImageReader2_new"
    by (rule at_most_one_name_new)
  have q: "FilePattern vtkImageReader2_new \<noteq> Some ''slice.%d''"
    by (simp add: vtkImageReader2_new_def)
  show ?thesis
    using h q setters_keep_one_name [OF h, of
        "[CallSetFilePrefix (Some ''img''), CallSetFileName (Some ''a.raw'')]"
        "''a.raw''" three_names "''img''" "''slice.%d''"]
    by simp
qed

lemma sint_of_nat_64: "n < 2 ^ 63 \<Longrightarrow> sint (of_nat n :: 64 word) = int n"
  by (simp add: signed_of_nat signed_take_bit_int_eq_self)

lemma GetNumberOfValues_pos:
  assumes "1 \<le> length (StringValues a)" and "length (StringValues a) \<le> 2 ^ 31"
  shows "0 <s GetNumberOfValues a"
proof -
  have "length (StringValues a) < 2 ^ 63" using assms(2) by simp
  then have "sint (of_nat (length (StringValues a)) :: 64 word) = int (length (StringValues a))"
    by (rule sint_of_nat_64)
  then show ?thesis using assms by (auto simp add: GetNumberOfValues_def word_sless_alt)
qed

lemma GetNumberOfValues_zMax:
  assumes "1 \<le> length (StringValues a)" and "length (StringValues a) \<le> 2 ^ 31"
  shows "sint (long_to_int (GetNumberOfValues a - 1)) = int (length (StringValues a)) - 1"
proof -
  define n where "n = length (StringValues a) - 1"
  have n: "length (StringValues a) = Suc n" "n < 2 ^ 31"
    using assms by (simp_all add: n_def)
  have "long_to_int (GetNumberOfValues a - 1) = (of_nat n :: 32 word)"
    using n(2)
    by (simp add: long_to_int_def GetNumberOfValues_def n(1) unsigned_of_nat
        take_bit_nat_eq_self)
  moreover have "sint (of_nat n :: 32 word) = int n"
    using n(2) by (simp add: signed_of_nat signed_take_bit_int_eq_self)
  ultimately show ?thesis by (simp add: n(1))
qed

lemma SetFileNames_other_object:
  assumes "map_option ObjectId (FileNames s) \<noteq> Some (ObjectId a)"
  shows "DataExtent (SetFileNames (Some a) s) =
           (if 0 <s GetNumberOfValues a
            then (DataExtent s)[4 := 0, 5 := long_to_int (GetNumberOfValues a - 1)]
            else DataExtent s)"
proof -
  have ne: "Some (ObjectId a) \<noteq> map_option ObjectId (FileNames s)"
    using assms by (cases "FileNames s") auto
  then show ?thesis by (simp add: SetFileNames_def Let_def Modified_def)
qed

lemma SetFileNames_same_object:
  "map_option ObjectId (FileNames s) = Some (ObjectId a) \<Longrightarrow> SetFileNames (Some a) s = s"
  by (auto simp add: SetFileNames_def)

lemma RequestInformation_forces_z:
  assumes "FileNames s = Some a" and "0 <s GetNumberOfValues a"
  shows "snd (RequestInformation s)
       = (DataExtent s)[4 := 0, 5 := long_to_int (GetNumberOfValues a - 1)]"
  using assms by (simp add: RequestInformation_def Let_def)

text \<open>
  C9, as stated, fails. The reader holds the list of three names and Z bounds 5 and 9;
  setting the same list object again returns at the pointer comparison, and the Z
  bounds stay 5 and 9 instead of 0 and 2.
\<close>

theorem SetFileNames_same_object_counterexample:
  "length (StringValues three_names) = 3
   \<and> DataExtent (SetFileNames (Some three_names) reader_with_list_and_extent) ! 4 = 5
   \<and> DataExtent (SetFileNames (Some three_names) reader_with_list_and_extent) ! 5 = 9"
  by (simp add: SetFileNames_def reader_with_list_and_extent_def three_names_def
      vtkImageReader2_new_def Modified_def GetNumberOfValues_def Let_def word_sless_alt)

text \<open>
  C9, amended. Setting a file-name list object other than the one the reader already
  holds, with \<open>N\<close> paths: for \<open>1 \<le> N \<le> 2^31\<close> the Z bounds become 0 and \<open>N - 1\<close> and
  the X and Y bounds are unchanged; for \<open>N = 0\<close> the extent is untouched. Setting the
  list object the reader already holds changes nothing.
\<close>

theorem SetFileNames_forces_z:
  assumes "wf_arrays s"
  shows "(map_option ObjectId (FileNames s) \<noteq> Some (ObjectId a) \<longrightarrow>
           (1 \<le> length (StringValues a) \<and> length (StringValues a) \<le> 2 ^ 31 \<longrightarrow>
              sint (DataExtent (SetFileNames (Some a) s) ! 4) = 0
            \<and> sint (DataExtent (SetFileNames (Some a) s) ! 5) = int (length (StringValues a)) - 1
            \<and> take 4 (DataExtent (SetFileNames (Some a) s)) = take 4 (DataExtent s))
         \<and> (length (StringValues a) = 0 \<longrightarrow>
              DataExtent (SetFileNames (Some a) s) = DataExtent s))
       \<and> (map_option ObjectId (FileNames s) = Some (ObjectId a) \<longrightarrow>
            SetFileNames (Some a) s = s)"
proof (intro conjI impI)
  assume ne: "map_option ObjectId (FileNames s) \<noteq> Some (ObjectId a)"
    and n: "1 \<le> length (StringValues a) \<and> length (StringValues a) \<le> 2 ^ 31"
  from n have pos: "0 <s GetNumberOfValues a" by (simp add: GetNumberOfValues_pos)
  have ext: "DataExtent (SetFileNames (Some a) s)
      = (DataExtent s)[4 := 0, 5 := long_to_int (GetNumberOfValues a - 1)]"
    using pos by (simp add: SetFileNames_other_object [OF ne])
  show "sint (DataExtent (SetFileNames (Some a) s) ! 4) = 0"
    using assms by (simp add: ext wf_arrays_def)
  show "sint (DataExtent (SetFileNames (Some a) s) ! 5) = int (length (StringValues a)) - 1"
    using assms n by (simp add: ext wf_arrays_def GetNumberOfValues_zMax)
  show "take 4 (DataExtent (SetFileNames (Some a) s)) = take 4 (DataExtent s)"
    by (simp add: ext)
next
  assume ne: "map_option ObjectId (FileNames s) \<noteq> Some (ObjectId a)"
    and "length (StringValues a) = 0"
  then have "\<not> 0 <s GetNumberOfValues a" by (simp add: GetNumberOfValues_def)
  then show "DataExtent (SetFileNames (Some a) s) = DataExtent s"
    by (simp add: SetFileNames_other_object [OF ne])
next
  assume "map_option ObjectId (FileNames s) = Some (ObjectId a)"
  then show "SetFileNames (Some a) s = s" by (rule SetFileNames_same_object)
qed

theorem SetFileNames_forces_z_witness:
  "wf_arrays reader_4x2
   \<and> map_option ObjectId (FileNames reader_4x2) \<noteq> Some (ObjectId three_names)
   \<and> length (StringValues three_names) = 3
   \<and> sint (DataExtent (SetFileNames (Some three_names) reader_4x2) ! 4) = 0
   \<and> sint (DataExtent (SetFileNames (Some three_names) reader_4x2) ! 5) = 2
   \<and> take 4 (DataExtent (SetFileNames (Some three_names) reader_4x2)) = [0, 3, 0, 1]"
proof -
  have w: "wf_arrays reader_4x2"
    by (simp add: wf_arrays_def reader_4x2_def vtkImageReader2_new_def)
  have ne: "map_option ObjectId (FileNames reader_4x2) \<noteq> Some (ObjectId three_names)"
    by (simp add: reader_4x2_def vtkImageReader2_new_def)
  have n: "length (StringValues three_names) = 3"
    by (simp add: three_names_def)
  have e: "take 4 (DataExtent reader_4x2) = [0, 3, 0, 1]"
    by (simp add: reader_4x2_def vtkImageReader2_new_def)
  show ?thesis
    using w ne n e SetFileNames_forces_z [OF w, of three_names]
    by simp
qed

section \<open>Properties of GetHeaderSize\<close>

lemma seekg_position:
  "\<not> failbit f \<Longrightarrow> 0 \<le> sint off \<Longrightarrow> seekg off f = f\<lparr>gpos := nat (sint off)\<rparr>"
  by (simp add: seekg_def)

lemma ComputeInternalFileName_frame:
  assumes "ComputeInternalFileName env i s = Some s'"
    and "FileName s \<noteq> None \<or> FilePattern s \<noteq> None \<or> FileNames s \<noteq> None"
  shows "s' = s\<lparr>InternalFileName := InternalFileName s'\<rparr>"
  using assms
  by (auto simp add: ComputeInternalFileName_def Let_def split: option.splits if_splits)

lemma ComputeDataIncrements_frame:
  "\<exists>incs msgs. ComputeDataIncrements env s = s\<lparr>DataIncrements := incs, Messages := msgs\<rparr>"
proof (cases "scalar_size env (DataScalarType s)")
  case None
  then have "ComputeDataIncrements env s
      = s\<lparr>DataIncrements := DataIncrements s,
          Messages := Messages s @ [ErrUnknownDataScalarType]\<rparr>"
    by (simp add: ComputeDataIncrements_None vtkErrorMacro_def)
  then show ?thesis by blast
next
  case (Some sz)
  have "ComputeDataIncrements env s
      = s\<lparr>DataIncrements := DataIncrements (ComputeDataIncrements env s),
          Messages := Messages s\<rparr>"
    by (simp add: ComputeDataIncrements_Some [OF Some])
  then show ?thesis by blast
qed

lemma ComputeDataIncrements_fields:
  "FileName (ComputeDataIncrements env s) = FileName s"
  "FilePattern (ComputeDataIncrements env s) = FilePattern s"
  "FileNames (ComputeDataIncrements env s) = FileNames s"
  "HeaderSize (ComputeDataIncrements env s) = HeaderSize s"
  "FileDimensionality (ComputeDataIncrements env s) = FileDimensionality s"
  "ManualHeaderSize (ComputeDataIncrements env s) = ManualHeaderSize s"
  "File (ComputeDataIncrements env s) = File s"
  using ComputeDataIncrements_frame [of env s] by auto

lemma header_difference:
  fixes payload :: c_ulong
  assumes "unat payload \<le> n" and "n - unat payload < 2 ^ 31"
  shows "int_to_ulong (long_to_int (of_nat n - payload)) = of_nat (n - unat payload)"
proof -
  define d where "d = n - unat payload"
  have n: "n = d + unat payload" using assms(1) by (simp add: d_def)
  have d: "d < 2 ^ 31" using assms(2) by (simp add: d_def)
  have "(of_nat n :: c_ulong) - payload = of_nat d"
    by (simp add: n)
  moreover have "long_to_int (of_nat d :: c_long) = (of_nat d :: c_int)"
    using d by (simp add: long_to_int_def unsigned_of_nat take_bit_nat_eq_self)
  moreover have "int_to_ulong (of_nat d :: c_int) = (of_nat d :: c_ulong)"
    using d by (simp add: int_to_ulong_def signed_of_nat signed_take_bit_int_eq_self)
  ultimately show ?thesis by (simp add: d_def)
qed

text \<open>
  C1, as stated, fails. In Auto mode (\<open>ManualHeaderSize = 0\<close>) the reader named after a
  file that does not exist resolves the header size to the stored \<open>HeaderSize\<close>, 0,
  and reports nothing. In a read with file dimensionality 3 the file of slice 0 is
  open; the probe of slice 1 stats \<open>gone.raw\<close>, which does not exist, and the read goes
  on with header size 0 in place of the 1 computed for slice 0: it reports nothing and
  delivers the bytes 11, 12 for the second slice where 12, 13 are stored.
\<close>

theorem GetHeaderSize_probe_failure_counterexample:
  "ManualHeaderSize reader_missing_file = 0
   \<and> Stat (example_platform []) (Some ''missing.raw'') = None
   \<and> map_option (\<lambda>(h, r). (h, InternalFileName r, Messages r))
        (GetHeaderSize_idx (example_platform []) 0 reader_missing_file)
      = Some (0, Some ''missing.raw'', [])
   \<and> ManualHeaderSize reader_volume = 0
   \<and> Stat (example_platform [(''vol.raw'', [99, 10, 11, 12, 13])]) (Some ''gone.raw'') = None
   \<and> map_option (\<lambda>(r, d). (Messages r, ScalarBytes d))
        (ExecuteDataWithInformation (example_platform [(''vol.raw'', [99, 10, 11, 12, 13])])
           reader_volume output_2x1x2)
      = Some ([], [10, 11, 11, 12])"
  by code_simp

text \<open>
  C1, amended. In Auto mode with a file name or pattern set, when \<open>Stat\<close> of the
  resolved slice path fails, \<open>GetHeaderSize\<close> returns the stored \<open>HeaderSize\<close> field
  and reports no error of its own: the messages are those of the increment
  recomputation, none for a supported scalar type. \<open>SeekFile(i, j, k)\<close> for that
  slice goes on with that size: the offset it computes is the coordinate terms plus
  the stored \<open>HeaderSize\<close>, and an open stream that has not failed is positioned at
  that offset (when it is not negative as a \<open>long\<close>) with no message added.
\<close>

theorem GetHeaderSize_probe_failure:
  assumes "FileName s \<noteq> None \<or> FilePattern s \<noteq> None"
    and "ManualHeaderSize s = 0"
    and "ComputeInternalFileName env (long_to_int idx) (ComputeDataIncrements env s) = Some s2"
    and "Stat env (InternalFileName s2) = None"
  shows "GetHeaderSize_idx env idx s = Some (HeaderSize s, s2)
       \<and> Messages s2 = Messages (ComputeDataIncrements env s)
       \<and> (scalar_size env (DataScalarType s) \<noteq> None \<longrightarrow> Messages s2 = Messages s)
       \<and> (\<forall>i j k. idx = int_to_ulong k \<longrightarrow>
            SeekFile_streamStart env i j k s
              = Some (streamStart_rows s i j k + HeaderSize s, s2)
          \<and> (\<forall>f. File s2 = Some f \<and> \<not> failbit f
                  \<and> 0 \<le> sint (streamStart_rows s i j k + HeaderSize s) \<longrightarrow>
                SeekFile env i j k s
                  = Some (s2\<lparr>File := Some
                       (f\<lparr>gpos := nat (sint (streamStart_rows s i j k + HeaderSize s))\<rparr>)\<rparr>)))"
proof -
  let ?s1 = "ComputeDataIncrements env s"
  have names: "FileName ?s1 \<noteq> None \<or> FilePattern ?s1 \<noteq> None \<or> FileNames ?s1 \<noteq> None"
    using assms(1) by (auto simp add: ComputeDataIncrements_fields)
  have frame: "s2 = ?s1\<lparr>InternalFileName := InternalFileName s2\<rparr>"
    by (rule ComputeInternalFileName_frame [OF assms(3) names])
  have h: "HeaderSize s2 = HeaderSize s"
    by (subst frame) (simp add: ComputeDataIncrements_fields)
  have m: "Messages s2 = Messages ?s1"
    by (subst frame) simp
  have g: "GetHeaderSize_idx env idx s = Some (HeaderSize s, s2)"
    using assms h by (auto simp add: GetHeaderSize_idx_def)
  have sup: "scalar_size env (DataScalarType s) \<noteq> None \<longrightarrow> Messages s2 = Messages s"
    using m by (auto simp add: ComputeDataIncrements_Some)
  have seek: "SeekFile_streamStart env i j k s
        = Some (streamStart_rows s i j k + HeaderSize s, s2)
      \<and> (\<forall>f. File s2 = Some f \<and> \<not> failbit f
              \<and> 0 \<le> sint (streamStart_rows s i j k + HeaderSize s) \<longrightarrow>
            SeekFile env i j k s
              = Some (s2\<lparr>File := Some
                   (f\<lparr>gpos := nat (sint (streamStart_rows s i j k + HeaderSize s))\<rparr>)\<rparr>))"
    if "idx = int_to_ulong k" for i j k
  proof -
    have start: "SeekFile_streamStart env i j k s
        = Some (streamStart_rows s i j k + HeaderSize s, s2)"
      using g that by (simp add: SeekFile_streamStart_def)
    then show ?thesis
      by (simp add: SeekFile_def seekg_position Let_def)
  qed
  show ?thesis
    using g m sup seek by blast
qed

theorem GetHeaderSize_probe_failure_witness:
  "FilePattern reader_volume_open = Some ''%s.%d''
   \<and> ManualHeaderSize reader_volume_open = 0
   \<and> HeaderSize reader_volume_open = 0
   \<and> Stat (example_platform [(''vol.raw'', [99, 10, 11, 12, 13])]) (Some ''gone.raw'') = None
   \<and> map_option (\<lambda>(h, r). (h, InternalFileName r, Messages r))
        (GetHeaderSize_idx (example_platform [(''vol.raw'', [99, 10, 11, 12, 13])])
           (int_to_ulong 1) reader_volume_open)
      = Some (0, Some ''gone.raw'', [])
   \<and> streamStart_rows reader_volume_open 0 0 1 = 2
   \<and> map_option fst
        (SeekFile_streamStart (example_platform [(''vol.raw'', [99, 10, 11, 12, 13])])
           0 0 1 reader_volume_open)
      = Some 2
   \<and> map_option (\<lambda>r. (map_option gpos (File r), Messages r))
        (SeekFile (example_platform [(''vol.raw'', [99, 10, 11, 12, 13])])
           0 0 1 reader_volume_open)
      = Some (Some 2, [])"
proof -
  let ?env = "example_platform [(''vol.raw'', [99, 10, 11, 12, 13])]"
  let ?f = "\<lparr>contents = [99, 10, 11, 12, 13 :: byte], gpos = 0, failbit = False\<rparr>"
  define s2 where "s2 = (ComputeDataIncrements ?env reader_volume_open)
      \<lparr>InternalFileName := Some ''gone.raw''\<rparr>"
  have a: "FileName reader_volume_open \<noteq> None \<or> FilePattern reader_volume_open \<noteq> None"
    by code_simp
  have p: "FilePattern reader_volume_open = Some ''%s.%d''"
    by code_simp
  have b: "ManualHeaderSize reader_volume_open = 0"
    by code_simp
  have c: "ComputeInternalFileName ?env (long_to_int (int_to_ulong 1))
             (ComputeDataIncrements ?env reader_volume_open) = Some s2"
    unfolding s2_def by code_simp
  have d: "Stat ?env (InternalFileName s2) = None"
    unfolding s2_def by code_simp
  have d2: "Stat ?env (Some ''gone.raw'') = None"
    by code_simp
  have e: "HeaderSize reader_volume_open = 0" "streamStart_rows reader_volume_open 0 0 1 = 2"
    by code_simp+
  have f: "File s2 = Some ?f" "\<not> failbit ?f" "InternalFileName s2 = Some ''gone.raw''"
    "Messages s2 = []"
    unfolding s2_def by code_simp+
  show ?thesis
    using p b d2 e f GetHeaderSize_probe_failure [OF a b c d]
    by simp
qed

text \<open>
  C3, as stated, fails. The file \<open>img.raw\<close> is empty and one slice of data is 2 bytes:
  the resolved header size is \<open>2^64 - 2\<close>, the difference \<open>0 - 2\<close> converted to
  \<open>unsigned long\<close>, not \<open>max(0, 0 - 2) = 0\<close>.
\<close>

theorem GetHeaderSize_small_file_counterexample:
  "ManualHeaderSize reader_one_sample = 0
   \<and> Stat (example_platform [(''img.raw'', [])]) (Some ''img.raw'') = Some 0
   \<and> map_option (\<lambda>(h, r). (h, InternalFileName r,
          DataIncrements r ! nat (sint (FileDimensionality r))))
        (GetHeaderSize_idx (example_platform [(''img.raw'', [])]) 0 reader_one_sample)
      = Some (18446744073709551614, Some ''img.raw'', 2)"
  by code_simp

text \<open>
  C3, amended. In Auto mode with a file name or pattern set and an accessible resolved
  file of \<open>fileSize\<close> bytes, let the expected payload size be the recomputed increment
  at index \<open>FileDimensionality\<close> (an index from 0 to 3). When the payload is at most
  \<open>fileSize\<close> and \<open>fileSize - payload\<close> is below \<open>2^31\<close>, the resolved header size is
  \<open>fileSize - payload\<close>.
\<close>

theorem GetHeaderSize_auto:
  assumes "FileName s \<noteq> None \<or> FilePattern s \<noteq> None"
    and "ManualHeaderSize s = 0"
    and "ComputeInternalFileName env (long_to_int idx) (ComputeDataIncrements env s) = Some s2"
    and "InternalFileName s2 = Some path"
    and "files env path = Some bytes"
    and "0 \<le> sint (FileDimensionality s)" and "sint (FileDimensionality s) < 4"
    and "payload = DataIncrements (ComputeDataIncrements env s) ! nat (sint (FileDimensionality s))"
    and "unat payload \<le> length bytes"
    and "length bytes - unat payload < 2 ^ 31"
  shows "GetHeaderSize_idx env idx s = Some (of_nat (length bytes - unat payload), s2)"
proof -
  let ?s1 = "ComputeDataIncrements env s"
  have names: "FileName ?s1 \<noteq> None \<or> FilePattern ?s1 \<noteq> None \<or> FileNames ?s1 \<noteq> None"
    using assms(1) by (auto simp add: ComputeDataIncrements_fields)
  have frame: "s2 = ?s1\<lparr>InternalFileName := InternalFileName s2\<rparr>"
    by (rule ComputeInternalFileName_frame [OF assms(3) names])
  have dim: "FileDimensionality s2 = FileDimensionality s"
    by (subst frame) (simp add: ComputeDataIncrements_fields)
  have incs: "DataIncrements s2 = DataIncrements ?s1"
    by (subst frame) simp
  have stat: "Stat env (InternalFileName s2) = Some (of_nat (length bytes))"
    using assms(4,5) by (simp add: Stat_def)
  have "GetHeaderSize_idx env idx s
      = Some (int_to_ulong (long_to_int (of_nat (length bytes) - payload)), s2)"
    using assms(1,2,3,6,7,8) stat dim incs by (auto simp add: GetHeaderSize_idx_def)
  then show ?thesis
    using header_difference [OF assms(9,10)] by simp
qed

theorem GetHeaderSize_auto_witness:
  "FileName reader_one_sample = Some ''img.raw''
   \<and> ManualHeaderSize reader_one_sample = 0
   \<and> files (example_platform [(''img.raw'', [9, 9, 9, 1, 2])]) ''img.raw''
        = Some [9, 9, 9, 1, 2]
   \<and> DataIncrements
         (ComputeDataIncrements (example_platform [(''img.raw'', [9, 9, 9, 1, 2])])
            reader_one_sample) ! nat (sint (FileDimensionality reader_one_sample)) = 2
   \<and> map_option fst
        (GetHeaderSize_idx (example_platform [(''img.raw'', [9, 9, 9, 1, 2])]) 0
           reader_one_sample) = Some 3"
proof -
  let ?env = "example_platform [(''img.raw'', [9, 9, 9, 1, 2])]"
  define s2 where "s2 = (ComputeDataIncrements ?env reader_one_sample)
      \<lparr>InternalFileName := Some ''img.raw''\<rparr>"
  have a: "FileName reader_one_sample \<noteq> None \<or> FilePattern reader_one_sample \<noteq> None"
    by (simp add: reader_one_sample_def SetFileName_def vtkImageReader2_new_def Modified_def)
  have b: "ManualHeaderSize reader_one_sample = 0"
    by (simp add: reader_one_sample_def SetFileName_def vtkImageReader2_new_def Modified_def)
  have n: "FileName reader_one_sample = Some ''img.raw''"
    "FileNames reader_one_sample = None"
    by (simp_all add: reader_one_sample_def SetFileName_def vtkImageReader2_new_def
        Modified_def)
  have c: "ComputeInternalFileName ?env (long_to_int 0)
             (ComputeDataIncrements ?env reader_one_sample) = Some s2"
    using n
    by (simp add: ComputeInternalFileName_def ComputeDataIncrements_fields Let_def s2_def
        snprintf_truncate_def)
  have d: "InternalFileName s2 = Some ''img.raw''"
    by (simp add: s2_def)
  have e: "files ?env ''img.raw'' = Some [9, 9, 9, 1, 2]"
    by (simp add: example_platform_def)
  have f: "0 \<le> sint (FileDimensionality reader_one_sample)"
    "sint (FileDimensionality reader_one_sample) < 4"
    by (simp_all add: reader_one_sample_def SetFileName_def vtkImageReader2_new_def
        Modified_def)
  have g: "(2 :: c_ulong) = DataIncrements (ComputeDataIncrements ?env reader_one_sample)
             ! nat (sint (FileDimensionality reader_one_sample))"
    by code_simp
  have h: "unat (2 :: c_ulong) \<le> length [9, 9, 9, 1, 2 :: byte]"
    "length [9, 9, 9, 1, 2 :: byte] - unat (2 :: c_ulong) < 2 ^ 31"
    by simp_all
  show ?thesis
    using n(1) b e g GetHeaderSize_auto [OF a b c d e f g h]
    by simp
qed

section \<open>Properties of SeekFile\<close>

text \<open>
  C6. For a file dimensionality of at most 3, the offset that \<open>SeekFile(i, j, k)\<close> computes is
  \<open>(i - xMin) * increments[0]\<close>, plus \<open>(j - yMin) * increments[1]\<close> when
  \<open>FileLowerLeft\<close> is on and \<open>(yMax - yMin - j) * increments[1]\<close> when it is off, plus
  \<open>(k - zMin) * increments[2]\<close> exactly when the file dimensionality is 3, plus the
  header size that \<open>GetHeaderSize(k)\<close> returns; the open stream, when it has not
  failed and the offset is not negative as a \<open>long\<close>, is positioned there. The
  equation is in the code's \<open>unsigned long\<close> arithmetic and holds for every
  \<open>(i, j, k)\<close>, inside the extent or not.
\<close>

theorem SeekFile_offset:
  assumes "GetHeaderSize_idx env (int_to_ulong k) s = Some (header, s1)"
    and "sint (FileDimensionality s) \<le> 3"
    and "off = int_to_ulong (i - DataExtent s ! 0) * DataIncrements s ! 0
           + (if FileLowerLeft s \<noteq> 0
              then int_to_ulong (j - DataExtent s ! 2) * DataIncrements s ! 1
              else int_to_ulong (DataExtent s ! 3 - DataExtent s ! 2 - j) * DataIncrements s ! 1)
           + (if FileDimensionality s = 3
              then int_to_ulong (k - DataExtent s ! 4) * DataIncrements s ! 2
              else 0)
           + header"
  shows "SeekFile_streamStart env i j k s = Some (off, s1)
       \<and> (\<forall>f. File s1 = Some f \<and> \<not> failbit f \<and> 0 \<le> sint off \<longrightarrow>
            SeekFile env i j k s = Some (s1\<lparr>File := Some (f\<lparr>gpos := nat (sint off)\<rparr>)\<rparr>))"
proof -
  have dim: "(3 \<le>s FileDimensionality s) = (FileDimensionality s = 3)"
  proof
    assume "3 \<le>s FileDimensionality s"
    then have "sint (FileDimensionality s) = sint (3 :: c_int)"
      using assms(2) by (simp add: word_sle_eq)
    then show "FileDimensionality s = 3"
      by (rule signed_word_eqI)
  next
    assume "FileDimensionality s = 3"
    then show "3 \<le>s FileDimensionality s" by simp
  qed
  have start: "SeekFile_streamStart env i j k s = Some (off, s1)"
    using assms(1,3) dim by (simp add: SeekFile_streamStart_def streamStart_rows_def Let_def)
  moreover have "SeekFile env i j k s = Some (s1\<lparr>File := Some (f\<lparr>gpos := nat (sint off)\<rparr>)\<rparr>)"
    if "File s1 = Some f" "\<not> failbit f" "0 \<le> sint off" for f
    using that start by (simp add: SeekFile_def seekg_position Let_def)
  ultimately show ?thesis by blast
qed

theorem SeekFile_offset_witness:
  "DataExtent reader_grid = [1, 2, 1, 6, 1, 2]
   \<and> DataIncrements reader_grid = [2, 4, 24, 48]
   \<and> map_option fst
        (SeekFile_streamStart (example_platform []) 2 2 2
           (reader_grid\<lparr>FileLowerLeft := 0, FileDimensionality := 3\<rparr>)) = Some 41
   \<and> map_option (\<lambda>r. map_option gpos (File r))
        (SeekFile (example_platform []) 2 2 2
           (reader_grid\<lparr>FileLowerLeft := 0, FileDimensionality := 3\<rparr>)) = Some (Some 41)
   \<and> map_option fst
        (SeekFile_streamStart (example_platform []) 2 2 2
           (reader_grid\<lparr>FileLowerLeft := 1, FileDimensionality := 3\<rparr>)) = Some 33
   \<and> map_option (\<lambda>r. map_option gpos (File r))
        (SeekFile (example_platform []) 2 2 2
           (reader_grid\<lparr>FileLowerLeft := 1, FileDimensionality := 3\<rparr>)) = Some (Some 33)
   \<and> map_option fst
        (SeekFile_streamStart (example_platform []) 2 2 2
           (reader_grid\<lparr>FileLowerLeft := 0, FileDimensionality := 2\<rparr>)) = Some 17
   \<and> map_option (\<lambda>r. map_option gpos (File r))
        (SeekFile (example_platform []) 2 2 2
           (reader_grid\<lparr>FileLowerLeft := 0, FileDimensionality := 2\<rparr>)) = Some (Some 17)
   \<and> map_option fst
        (SeekFile_streamStart (example_platform []) 2 2 2
           (reader_grid\<lparr>FileLowerLeft := 1, FileDimensionality := 2\<rparr>)) = Some 9
   \<and> map_option (\<lambda>r. map_option gpos (File r))
        (SeekFile (example_platform []) 2 2 2
           (reader_grid\<lparr>FileLowerLeft := 1, FileDimensionality := 2\<rparr>)) = Some (Some 9)
   \<and> map_option fst
        (SeekFile_streamStart (example_platform [(''img.raw'', [9, 9, 9, 1, 2])]) 0 0 0
           reader_open_sample) = Some 3
   \<and> map_option (\<lambda>r. map_option gpos (File r))
        (SeekFile (example_platform [(''img.raw'', [9, 9, 9, 1, 2])]) 0 0 0
           reader_open_sample) = Some (Some 3)"
proof -
  let ?env = "example_platform []"
  let ?f = "\<lparr>contents = replicate 51 (7 :: byte), gpos = 0, failbit = False\<rparr>"
  let ?upA = "reader_grid\<lparr>FileLowerLeft := 0, FileDimensionality := 3\<rparr>"
  let ?lowA = "reader_grid\<lparr>FileLowerLeft := 1, FileDimensionality := 3\<rparr>"
  let ?upB = "reader_grid\<lparr>FileLowerLeft := 0, FileDimensionality := 2\<rparr>"
  let ?lowB = "reader_grid\<lparr>FileLowerLeft := 1, FileDimensionality := 2\<rparr>"
  let ?envs = "example_platform [(''img.raw'', [9, 9, 9, 1, 2])]"
  let ?sample = "ComputeDataIncrements (example_platform []) reader_open_sample"
  let ?g = "\<lparr>contents = [9, 9, 9, 1, 2 :: byte], gpos = 0, failbit = False\<rparr>"
  have grid: "DataExtent reader_grid = [1, 2, 1, 6, 1, 2]"
    "DataIncrements reader_grid = [2, 4, 24, 48]"
    by code_simp+
  have h: "GetHeaderSize_idx ?env (int_to_ulong 2) ?upA = Some (3, ?upA)"
    "GetHeaderSize_idx ?env (int_to_ulong 2) ?lowA = Some (3, ?lowA)"
    "GetHeaderSize_idx ?env (int_to_ulong 2) ?upB = Some (3, ?upB)"
    "GetHeaderSize_idx ?env (int_to_ulong 2) ?lowB = Some (3, ?lowB)"
    by code_simp+
  have h0: "GetHeaderSize_idx ?envs (int_to_ulong 0) reader_open_sample = Some (3, ?sample)"
    by code_simp
  have d: "sint (FileDimensionality ?upA) \<le> 3" "sint (FileDimensionality ?lowA) \<le> 3"
    "sint (FileDimensionality ?upB) \<le> 3" "sint (FileDimensionality ?lowB) \<le> 3"
    "sint (FileDimensionality reader_open_sample) \<le> 3"
    by code_simp+
  have fl: "File ?upA = Some ?f" "File ?lowA = Some ?f" "File ?upB = Some ?f" "File ?lowB = Some ?f"
    "File ?sample = Some ?g"
    by code_simp+
  have pos: "0 \<le> sint (41 :: c_ulong)" "0 \<le> sint (33 :: c_ulong)" "0 \<le> sint (17 :: c_ulong)"
    "0 \<le> sint (9 :: c_ulong)" "0 \<le> sint (3 :: c_ulong)"
    "nat (sint (41 :: c_ulong)) = 41" "nat (sint (33 :: c_ulong)) = 33"
    "nat (sint (17 :: c_ulong)) = 17" "nat (sint (9 :: c_ulong)) = 9"
    "nat (sint (3 :: c_ulong)) = 3"
    by simp_all
  have u3: "SeekFile_streamStart ?env 2 2 2 ?upA = Some (41, ?upA)
      \<and> (\<forall>f. File ?upA = Some f \<and> \<not> failbit f \<and> 0 \<le> sint (41 :: c_ulong) \<longrightarrow>
           SeekFile ?env 2 2 2 ?upA
             = Some (?upA\<lparr>File := Some (f\<lparr>gpos := nat (sint (41 :: c_ulong))\<rparr>)\<rparr>))"
    by (rule SeekFile_offset [OF h(1) d(1)]) code_simp
  have l3: "SeekFile_streamStart ?env 2 2 2 ?lowA = Some (33, ?lowA)
      \<and> (\<forall>f. File ?lowA = Some f \<and> \<not> failbit f \<and> 0 \<le> sint (33 :: c_ulong) \<longrightarrow>
           SeekFile ?env 2 2 2 ?lowA
             = Some (?lowA\<lparr>File := Some (f\<lparr>gpos := nat (sint (33 :: c_ulong))\<rparr>)\<rparr>))"
    by (rule SeekFile_offset [OF h(2) d(2)]) code_simp
  have u2: "SeekFile_streamStart ?env 2 2 2 ?upB = Some (17, ?upB)
      \<and> (\<forall>f. File ?upB = Some f \<and> \<not> failbit f \<and> 0 \<le> sint (17 :: c_ulong) \<longrightarrow>
           SeekFile ?env 2 2 2 ?upB
             = Some (?upB\<lparr>File := Some (f\<lparr>gpos := nat (sint (17 :: c_ulong))\<rparr>)\<rparr>))"
    by (rule SeekFile_offset [OF h(3) d(3)]) code_simp
  have l2: "SeekFile_streamStart ?env 2 2 2 ?lowB = Some (9, ?lowB)
      \<and> (\<forall>f. File ?lowB = Some f \<and> \<not> failbit f \<and> 0 \<le> sint (9 :: c_ulong) \<longrightarrow>
           SeekFile ?env 2 2 2 ?lowB
             = Some (?lowB\<lparr>File := Some (f\<lparr>gpos := nat (sint (9 :: c_ulong))\<rparr>)\<rparr>))"
    by (rule SeekFile_offset [OF h(4) d(4)]) code_simp
  have s0: "SeekFile_streamStart ?envs 0 0 0 reader_open_sample = Some (3, ?sample)
      \<and> (\<forall>f. File ?sample = Some f \<and> \<not> failbit f \<and> 0 \<le> sint (3 :: c_ulong) \<longrightarrow>
           SeekFile ?envs 0 0 0 reader_open_sample
             = Some (?sample\<lparr>File := Some (f\<lparr>gpos := nat (sint (3 :: c_ulong))\<rparr>)\<rparr>))"
    by (rule SeekFile_offset [OF h0 d(5)]) code_simp
  have r: "SeekFile ?env 2 2 2 ?upA = Some (?upA\<lparr>File := Some (?f\<lparr>gpos := 41\<rparr>)\<rparr>)"
    "SeekFile ?env 2 2 2 ?lowA = Some (?lowA\<lparr>File := Some (?f\<lparr>gpos := 33\<rparr>)\<rparr>)"
    "SeekFile ?env 2 2 2 ?upB = Some (?upB\<lparr>File := Some (?f\<lparr>gpos := 17\<rparr>)\<rparr>)"
    "SeekFile ?env 2 2 2 ?lowB = Some (?lowB\<lparr>File := Some (?f\<lparr>gpos := 9\<rparr>)\<rparr>)"
    "SeekFile ?envs 0 0 0 reader_open_sample = Some (?sample\<lparr>File := Some (?g\<lparr>gpos := 3\<rparr>)\<rparr>)"
    using u3 l3 u2 l2 s0 fl pos by auto
  show ?thesis
    using grid u3 l3 u2 l2 s0 by (simp add: r)
qed

lemma streamStart_rows_mirror_yMin_0:
  assumes "DataExtent s ! 2 = 0"
  shows "streamStart_rows (s\<lparr>FileLowerLeft := 0\<rparr>) i (DataExtent s ! 2) k
       = streamStart_rows (s\<lparr>FileLowerLeft := 1\<rparr>) i (DataExtent s ! 3) k"
  using assms by (simp add: streamStart_rows_def Let_def)

text \<open>
  C7 at a failing input. The extent has Y bounds 1 and 2 and \<open>increments[1] = 2\<close>; the
  header size is 0 in both orientations. With \<open>FileLowerLeft\<close> off the offset of
  \<open>(0, yMin, 0)\<close> is 0, with \<open>FileLowerLeft\<close> on the offset of \<open>(0, yMax, 0)\<close> is 2: they
  are not mirror images. With \<open>FileLowerLeft\<close> off the offset of the row \<open>yMax\<close> is
  \<open>- 2\<close> as a \<open>long\<close>.
\<close>

theorem SeekFile_mirror_failing_input:
  "DataExtent reader_rows_1_2 = [0, 0, 1, 2, 0, 0]
   \<and> DataIncrements reader_rows_1_2 = [2, 2, 4, 4]
   \<and> map_option fst
        (SeekFile_streamStart (example_platform []) 0 1 0 (reader_rows_1_2\<lparr>FileLowerLeft := 0\<rparr>))
      = Some 0
   \<and> map_option fst
        (SeekFile_streamStart (example_platform []) 0 2 0 (reader_rows_1_2\<lparr>FileLowerLeft := 1\<rparr>))
      = Some 2
   \<and> map_option (\<lambda>(off, r). sint off)
        (SeekFile_streamStart (example_platform []) 0 2 0 (reader_rows_1_2\<lparr>FileLowerLeft := 0\<rparr>))
      = Some (- 2)"
  by code_simp

section \<open>Properties of the read\<close>

lemma ExecuteDataWithInformation_no_name:
  assumes "FileName s = None" and "FilePattern s = None"
  shows "ExecuteDataWithInformation env s data
       = Some (vtkErrorMacro ErrNoValidFileNameOrFilePattern s, data)"
  using assms by (simp add: ExecuteDataWithInformation_def)

text \<open>
  C4 at a failing input. The reader has the list of three names and neither a file
  name nor a pattern. \<open>ExecuteDataWithInformation\<close> reports that a file name or pattern
  must be specified and returns with no file opened and the output untouched, while
  \<open>ComputeInternalFileName\<close> resolves slice 0 to \<open>s0.raw\<close> without a message and
  \<open>OpenFile\<close> opens it. With the default pattern left in place the same list is read.
\<close>

theorem ExecuteDataWithInformation_list_only_failing_input:
  "FileNames reader_list_only = Some three_names
   \<and> FileName reader_list_only = None
   \<and> FilePattern reader_list_only = None
   \<and> map_option (\<lambda>(r, d). (Messages r, File r, ScalarBytes d))
        (ExecuteDataWithInformation (example_platform three_files) reader_list_only output_1x1x3)
      = Some ([ErrNoValidFileNameOrFilePattern], None, [0, 0, 0, 0, 0, 0])
   \<and> map_option (\<lambda>r. (InternalFileName r, Messages r))
        (ComputeInternalFileName (example_platform three_files) 0 reader_list_only)
      = Some (Some ''s0.raw'', [])
   \<and> map_option (\<lambda>r. fst (OpenFile (example_platform three_files) r))
        (ComputeInternalFileName (example_platform three_files) 0 reader_list_only)
      = Some True
   \<and> map_option (\<lambda>(r, d). (Messages r, ScalarBytes d))
        (ExecuteDataWithInformation (example_platform three_files)
           (SetFileNames (Some three_names) vtkImageReader2_new) output_1x1x3)
      = Some ([], [1, 2, 3, 4, 5, 6])"
  by code_simp

section \<open>The read and the memory buffer\<close>

lemma membuf_fields [simp]:
  "FileName (with_memory_buffer m l t s) = FileName s"
  "FileNames (with_memory_buffer m l t s) = FileNames s"
  "FilePrefix (with_memory_buffer m l t s) = FilePrefix s"
  "FilePattern (with_memory_buffer m l t s) = FilePattern s"
  "InternalFileName (with_memory_buffer m l t s) = InternalFileName s"
  "File (with_memory_buffer m l t s) = File s"
  "DataScalarType (with_memory_buffer m l t s) = DataScalarType s"
  "NumberOfScalarComponents (with_memory_buffer m l t s) = NumberOfScalarComponents s"
  "DataExtent (with_memory_buffer m l t s) = DataExtent s"
  "DataIncrements (with_memory_buffer m l t s) = DataIncrements s"
  "HeaderSize (with_memory_buffer m l t s) = HeaderSize s"
  "ManualHeaderSize (with_memory_buffer m l t s) = ManualHeaderSize s"
  "FileNameSliceOffset (with_memory_buffer m l t s) = FileNameSliceOffset s"
  "FileNameSliceSpacing (with_memory_buffer m l t s) = FileNameSliceSpacing s"
  "SwapBytes (with_memory_buffer m l t s) = SwapBytes s"
  "FileLowerLeft (with_memory_buffer m l t s) = FileLowerLeft s"
  "FileDimensionality (with_memory_buffer m l t s) = FileDimensionality s"
  "AbortExecute (with_memory_buffer m l t s) = AbortExecute s"
  "Messages (with_memory_buffer m l t s) = Messages s"
  "ProgressEvents (with_memory_buffer m l t s) = ProgressEvents s"
  by (simp_all add: with_memory_buffer_def)

lemma membuf_updates [simp]:
  "(with_memory_buffer m l t s)\<lparr>InternalFileName := n\<rparr>
     = with_memory_buffer m l t (s\<lparr>InternalFileName := n\<rparr>)"
  "(with_memory_buffer m l t s)\<lparr>File := f\<rparr> = with_memory_buffer m l t (s\<lparr>File := f\<rparr>)"
  "(with_memory_buffer m l t s)\<lparr>DataIncrements := i\<rparr>
     = with_memory_buffer m l t (s\<lparr>DataIncrements := i\<rparr>)"
  "(with_memory_buffer m l t s)\<lparr>Messages := ms\<rparr>
     = with_memory_buffer m l t (s\<lparr>Messages := ms\<rparr>)"
  "(with_memory_buffer m l t s)\<lparr>ProgressEvents := p\<rparr>
     = with_memory_buffer m l t (s\<lparr>ProgressEvents := p\<rparr>)"
  by (simp_all add: with_memory_buffer_def)

lemma membuf_vtkErrorMacro [simp]:
  "vtkErrorMacro e (with_memory_buffer m l t s) = with_memory_buffer m l t (vtkErrorMacro e s)"
  by (simp add: vtkErrorMacro_def)

lemma membuf_vtkWarningMacro [simp]:
  "vtkWarningMacro e (with_memory_buffer m l t s) = with_memory_buffer m l t (vtkWarningMacro e s)"
  by (simp add: vtkWarningMacro_def)

lemma membuf_vtkGenericWarningMacro [simp]:
  "vtkGenericWarningMacro e (with_memory_buffer m l t s)
     = with_memory_buffer m l t (vtkGenericWarningMacro e s)"
  by (simp add: vtkGenericWarningMacro_def)

lemma membuf_UpdateProgress [simp]:
  "UpdateProgress c g (with_memory_buffer m l t s)
     = with_memory_buffer m l t (UpdateProgress c g s)"
  by (simp add: UpdateProgress_def)

lemma axisSize_wmb [simp]: "axisSize (with_memory_buffer m l t s) = axisSize s"
  by (simp add: axisSize_def fun_eq_iff)

lemma increments_step_wmb [simp]:
  "increments_step (with_memory_buffer m l t s) = increments_step s"
  by (simp add: increments_step_def fun_eq_iff)

lemma membuf_ComputeDataIncrements [simp]:
  "ComputeDataIncrements env (with_memory_buffer m l t s)
     = with_memory_buffer m l t (ComputeDataIncrements env s)"
  by (simp add: ComputeDataIncrements_def Let_def split: option.splits prod.splits)

lemma membuf_ComputeInternalFileName [simp]:
  "ComputeInternalFileName env i (with_memory_buffer m l t s)
     = map_option (with_memory_buffer m l t) (ComputeInternalFileName env i s)"
  by (simp add: ComputeInternalFileName_def Let_def split: option.splits)

lemma membuf_CloseFile [simp]:
  "CloseFile (with_memory_buffer m l t s) = with_memory_buffer m l t (CloseFile s)"
  by (simp add: CloseFile_def split: option.splits)

lemma membuf_OpenFile [simp]:
  "OpenFile env (with_memory_buffer m l t s)
     = map_prod id (with_memory_buffer m l t) (OpenFile env s)"
  by (simp add: OpenFile_def Let_def split: option.splits)

lemma membuf_resolve_and_open [simp]:
  "resolve_and_open env d idx (with_memory_buffer m l t s)
     = map_option (map_prod id (with_memory_buffer m l t)) (resolve_and_open env d idx s)"
  by (simp add: resolve_and_open_def option.map_comp comp_def)

lemma membuf_GetHeaderSize_idx [simp]:
  "GetHeaderSize_idx env idx (with_memory_buffer m l t s)
     = map_option (map_prod id (with_memory_buffer m l t)) (GetHeaderSize_idx env idx s)"
  by (auto simp add: GetHeaderSize_idx_def split: option.split)

lemma streamStart_rows_wmb [simp]:
  "streamStart_rows (with_memory_buffer m l t s) = streamStart_rows s"
  by (simp add: streamStart_rows_def fun_eq_iff Let_def)

lemma membuf_SeekFile_streamStart [simp]:
  "SeekFile_streamStart env i j k (with_memory_buffer m l t s)
     = map_option (map_prod id (with_memory_buffer m l t)) (SeekFile_streamStart env i j k s)"
  by (simp add: SeekFile_streamStart_def split: option.splits)

lemma membuf_SeekFile [simp]:
  "SeekFile env i j k (with_memory_buffer m l t s)
     = map_option (with_memory_buffer m l t) (SeekFile env i j k s)"
  by (simp add: SeekFile_def Let_def split: option.splits)

lemma membuf_read_rows:
  "read_rows env L idx2 n idx1 outPtr1 cnt (with_memory_buffer m l t self) data
     = map_option (\<lambda>(fin, c, r, d). (fin, c, with_memory_buffer m l t r, d))
         (read_rows env L idx2 n idx1 outPtr1 cnt self data)"
proof (induction n arbitrary: idx1 outPtr1 cnt self data)
  case 0
  show ?case by simp
next
  case (Suc n)
  show ?case
    by (simp add: Suc.IH Let_def split: option.split prod.split)
qed

lemma membuf_read_slices:
  "read_slices env L n idx2 outPtr2 cnt (with_memory_buffer m l t self) data
     = map_option (map_prod (with_memory_buffer m l t) id)
         (read_slices env L n idx2 outPtr2 cnt self data)"
proof (induction n arbitrary: idx2 outPtr2 cnt self data)
  case 0
  show ?case by simp
next
  case (Suc n)
  show ?case
    by (simp add: Suc.IH membuf_read_rows Let_def split: option.split prod.split)
qed

lemma membuf_vtkImageReader2Update:
  "vtkImageReader2Update env sz (with_memory_buffer m l t self) data
     = map_option (map_prod (with_memory_buffer m l t) id)
         (vtkImageReader2Update env sz self data)"
  by (simp add: vtkImageReader2Update_def membuf_read_slices Let_def
      split: option.split prod.split)

lemma membuf_ExecuteDataWithInformation:
  "ExecuteDataWithInformation env (with_memory_buffer m l t s) data
     = map_option (map_prod (with_memory_buffer m l t) id)
         (ExecuteDataWithInformation env s data)"
  by (simp add: ExecuteDataWithInformation_def membuf_vtkImageReader2Update Let_def
      split: option.split)


lemma with_memory_buffer_same:
  "with_memory_buffer (MemoryBuffer s) (MemoryBufferLength s) (MTime s) s = s"
  by (simp add: with_memory_buffer_def)

lemma ExecuteDataWithInformation_keeps_memory_buffer:
  assumes "ExecuteDataWithInformation env s data = Some (r, d)"
  shows "MemoryBuffer r = MemoryBuffer s \<and> MemoryBufferLength r = MemoryBufferLength s
       \<and> MTime r = MTime s"
proof -
  let ?w = "with_memory_buffer (MemoryBuffer s) (MemoryBufferLength s) (MTime s)"
  have "ExecuteDataWithInformation env (?w s) data = Some (?w r, d)"
    using assms by (simp add: membuf_ExecuteDataWithInformation)
  then have "r = ?w r"
    using assms by (simp add: with_memory_buffer_same)
  then have "MemoryBuffer r = MemoryBuffer (?w r)"
    "MemoryBufferLength r = MemoryBufferLength (?w r)" "MTime r = MTime (?w r)"
    by simp_all
  then show ?thesis by (simp add: with_memory_buffer_def)
qed

lemma memory_buffer_setters:
  "SetMemoryBufferLength l (SetMemoryBuffer m s)
     = with_memory_buffer m l
         ((if MemoryBuffer s \<noteq> m then 1 else 0)
            + (if MemoryBufferLength s \<noteq> l then 1 else 0) + MTime s) s"
  by (simp add: SetMemoryBufferLength_def SetMemoryBuffer_def Modified_def
      with_memory_buffer_def)

text \<open>
  C5, as stated, fails. The reader has a memory buffer of length 2 configured and the
  file name \<open>img.raw\<close>. The read opens that file and delivers its bytes 7, 8; where the
  file does not exist the read reports that it could not open it and delivers nothing,
  the configured buffer notwithstanding.
\<close>

theorem read_with_memory_buffer_counterexample:
  "MemoryBuffer reader_with_buffer = Some 1
   \<and> MemoryBufferLength reader_with_buffer = 2
   \<and> map_option (\<lambda>(r, d). (File r, Messages r, ScalarBytes d))
        (ExecuteDataWithInformation (example_platform [(''img.raw'', [7, 8])])
           reader_with_buffer output_one_sample)
      = Some (Some \<lparr>contents = [7, 8], gpos = 2, failbit = False\<rparr>, [], [7, 8])
   \<and> map_option (\<lambda>(r, d). (File r, Messages r, ScalarBytes d))
        (ExecuteDataWithInformation (example_platform []) reader_with_buffer output_one_sample)
      = Some (None, [ErrCouldNotOpenFile (Some ''img.raw'')], [0, 0])"
  by code_simp

text \<open>
  C5, amended. \<open>SetMemoryBuffer\<close> and \<open>SetMemoryBufferLength\<close> only store the pointer
  and the length; the read never consults them. Configuring a memory buffer before
  the read gives the outcome of the read without it (the same files opened, the same
  messages, the same bytes delivered), with the buffer configured on the resulting
  reader.
\<close>

theorem read_ignores_memory_buffer:
  "ExecuteDataWithInformation env (SetMemoryBufferLength l (SetMemoryBuffer m s)) data
     = map_option (map_prod (\<lambda>r. SetMemoryBufferLength l (SetMemoryBuffer m r)) id)
         (ExecuteDataWithInformation env s data)"
proof (cases "ExecuteDataWithInformation env s data")
  case None
  then show ?thesis
    by (simp add: memory_buffer_setters membuf_ExecuteDataWithInformation)
next
  case (Some rd)
  obtain r d where rd: "rd = (r, d)" by (cases rd)
  have keep: "MemoryBuffer r = MemoryBuffer s \<and> MemoryBufferLength r = MemoryBufferLength s
       \<and> MTime r = MTime s"
    using Some rd by (simp add: ExecuteDataWithInformation_keeps_memory_buffer)
  show ?thesis
    using Some rd keep
    by (simp add: memory_buffer_setters membuf_ExecuteDataWithInformation)
qed

theorem read_ignores_memory_buffer_witness:
  "map_option (\<lambda>(r, d). (MemoryBuffer r, MemoryBufferLength r, File r, Messages r, ScalarBytes d))
     (ExecuteDataWithInformation (example_platform [(''img.raw'', [7, 8])])
        (SetMemoryBufferLength 2 (SetMemoryBuffer (Some 1) reader_one_sample)) output_one_sample)
   = Some (Some 1, 2, Some \<lparr>contents = [7, 8], gpos = 2, failbit = False\<rparr>, [], [7, 8])"
proof -
  have "map_option (\<lambda>(r, d). (MemoryBuffer r, MemoryBufferLength r, File r, Messages r,
            ScalarBytes d))
          (map_option (map_prod (\<lambda>r. SetMemoryBufferLength 2 (SetMemoryBuffer (Some 1) r)) id)
             (ExecuteDataWithInformation (example_platform [(''img.raw'', [7, 8])])
                reader_one_sample output_one_sample))
        = Some (Some 1, 2, Some \<lparr>contents = [7, 8], gpos = 2, failbit = False\<rparr>, [], [7, 8])"
    by code_simp
  then show ?thesis
    using read_ignores_memory_buffer [of "example_platform [(''img.raw'', [7, 8])]" 2 "Some 1"
        reader_one_sample output_one_sample]
    by simp
qed

end
